theory Spec2Isabelle
  imports Main
begin

section \<open>Presence registry (apps/signaling/src/room-manager.ts)\<close>

text \<open>
  The registry is the class \<open>RoomManager\<close>: two JavaScript \<open>Map\<close>s, one from room ids
  to rooms and one from socket ids to peers. Both are modelled as partial maps; every
  method takes the registry and returns its result together with the registry after the
  call. A room's \<open>peers\<close> field is a JavaScript \<open>Set\<close> of socket ids, which iterates in
  insertion order: it is a list here, \<open>Set.add\<close> appends an absent element and
  \<open>Set.delete\<close> removes it, and \<open>size\<close> is the length. Strings are lists of
  characters; the nullable fields of a peer are options.
\<close>

record Peer =
  peer_socketId :: string
  peer_roomId :: "string option"
  peer_userId :: "string option"
  peer_appId :: "string option"

record Room =
  room_id :: string
  room_appId :: string
  room_peers :: "string list"
  room_maxParticipants :: nat

record RoomManager =
  rooms :: "string \<rightharpoonup> Room"
  peers :: "string \<rightharpoonup> Peer"

definition DEFAULT_MAX_PARTICIPANTS :: nat where
  "DEFAULT_MAX_PARTICIPANTS = 2"

definition emptyRoomManager :: RoomManager where
  "emptyRoomManager = \<lparr>rooms = Map.empty, peers = Map.empty\<rparr>"

text \<open>JavaScript truthiness of a \<open>string | null\<close>: \<open>null\<close> and the empty string are falsy.\<close>

fun truthy :: "string option \<Rightarrow> bool" where
  "truthy None = False"
| "truthy (Some s) = (s \<noteq> [])"

definition set_add :: "string \<Rightarrow> string list \<Rightarrow> string list" where
  "set_add x xs = (if x \<in> set xs then xs else xs @ [x])"

definition set_delete :: "string \<Rightarrow> string list \<Rightarrow> string list" where
  "set_delete x xs = removeAll x xs"

definition registerPeer :: "string \<Rightarrow> RoomManager \<Rightarrow> Peer \<times> RoomManager" where
  "registerPeer socketId rm =
     (let peer = \<lparr>peer_socketId = socketId, peer_roomId = None,
                   peer_userId = None, peer_appId = None\<rparr>
      in (peer, rm\<lparr>peers := (peers rm)(socketId \<mapsto> peer)\<rparr>))"

definition getPeer :: "RoomManager \<Rightarrow> string \<Rightarrow> Peer option" where
  "getPeer rm socketId = peers rm socketId"

datatype JoinResult = JoinSuccess | JoinFailure (error: string) (code: string)

text \<open>
  \<open>joinRoom\<close> stores a newly created room in the map before the ownership and capacity
  checks, as the source does; the failure branches return the registry with that room.
\<close>

definition joinRoom ::
  "string \<Rightarrow> string \<Rightarrow> string \<Rightarrow> string \<Rightarrow> RoomManager \<Rightarrow> JoinResult \<times> RoomManager" where
  "joinRoom socketId roomId userId appId rm =
     (case peers rm socketId of
        None \<Rightarrow> (JoinFailure ''Peer not found'' ''INTERNAL_ERROR'', rm)
      | Some peer \<Rightarrow>
          if peer_roomId peer \<noteq> None
          then (JoinFailure ''Already in a room'' ''ALREADY_IN_ROOM'', rm)
          else
            let room = (case rooms rm roomId of
                          Some r \<Rightarrow> r
                        | None \<Rightarrow> \<lparr>room_id = roomId, room_appId = appId, room_peers = [],
                                    room_maxParticipants = DEFAULT_MAX_PARTICIPANTS\<rparr>);
                rm1 = rm\<lparr>rooms := (rooms rm)(roomId \<mapsto> room)\<rparr>
            in if length (room_peers room) > 0 \<and> room_appId room \<noteq> appId
               then (JoinFailure ''Room belongs to different app'' ''INVALID_TOKEN'', rm1)
               else if length (room_peers room) \<ge> room_maxParticipants room
               then (JoinFailure ''Room is full'' ''ROOM_FULL'', rm1)
               else (JoinSuccess,
                     \<lparr>rooms = (rooms rm)(roomId \<mapsto>
                                room\<lparr>room_peers := set_add socketId (room_peers room)\<rparr>),
                      peers = (peers rm)(socketId \<mapsto>
                                peer\<lparr>peer_roomId := Some roomId, peer_userId := Some userId,
                                     peer_appId := Some appId\<rparr>)\<rparr>))"

definition leaveRoom ::
  "string \<Rightarrow> RoomManager \<Rightarrow> (string \<times> string list) option \<times> RoomManager" where
  "leaveRoom socketId rm =
     (case peers rm socketId of
        None \<Rightarrow> (None, rm)
      | Some peer \<Rightarrow>
          if \<not> truthy (peer_roomId peer) then (None, rm)
          else
            (case peer_roomId peer of
               None \<Rightarrow> (None, rm)
             | Some roomId \<Rightarrow>
                 (case rooms rm roomId of
                    None \<Rightarrow> (None, rm)
                  | Some room \<Rightarrow>
                      let remainingPeers = set_delete socketId (room_peers room);
                          rooms1 = (rooms rm)(roomId \<mapsto> room\<lparr>room_peers := remainingPeers\<rparr>);
                          rooms2 = (if length remainingPeers = 0
                                    then rooms1(roomId := None) else rooms1)
                      in (Some (roomId, remainingPeers),
                          \<lparr>rooms = rooms2,
                           peers = (peers rm)(socketId \<mapsto>
                                     peer\<lparr>peer_roomId := None, peer_userId := None,
                                          peer_appId := None\<rparr>)\<rparr>))))"

definition removePeer ::
  "string \<Rightarrow> RoomManager \<Rightarrow> (string \<times> string list \<times> string) option \<times> RoomManager" where
  "removePeer socketId rm =
     (case peers rm socketId of
        None \<Rightarrow> (None, rm)
      | Some peer \<Rightarrow>
          let userId = peer_userId peer;
              (leaveResult, rm1) = leaveRoom socketId rm;
              rm2 = rm1\<lparr>peers := (peers rm1)(socketId := None)\<rparr>
          in (case (leaveResult, userId) of
                (Some (roomId, remainingPeers), Some u) \<Rightarrow>
                  if u \<noteq> [] then (Some (roomId, remainingPeers, u), rm2) else (None, rm2)
              | _ \<Rightarrow> (None, rm2)))"

definition getRoomPeers :: "RoomManager \<Rightarrow> string \<Rightarrow> string list" where
  "getRoomPeers rm socketId =
     (case peers rm socketId of
        None \<Rightarrow> []
      | Some peer \<Rightarrow>
          if \<not> truthy (peer_roomId peer) then []
          else
            (case peer_roomId peer of
               None \<Rightarrow> []
             | Some roomId \<Rightarrow>
                 (case rooms rm roomId of
                    None \<Rightarrow> []
                  | Some room \<Rightarrow> filter (\<lambda>i. i \<noteq> socketId) (room_peers room))))"

definition truthyUserId :: "RoomManager \<Rightarrow> string \<Rightarrow> string option" where
  "truthyUserId rm socketId =
     (case peers rm socketId of
        None \<Rightarrow> None
      | Some peer \<Rightarrow> if truthy (peer_userId peer) then peer_userId peer else None)"

definition getRoomUserIds :: "RoomManager \<Rightarrow> string \<Rightarrow> string list" where
  "getRoomUserIds rm roomId =
     (case rooms rm roomId of
        None \<Rightarrow> []
      | Some room \<Rightarrow> List.map_filter (truthyUserId rm) (room_peers room))"

definition getUserId :: "RoomManager \<Rightarrow> string \<Rightarrow> string option" where
  "getUserId rm socketId =
     (case peers rm socketId of None \<Rightarrow> None | Some peer \<Rightarrow> peer_userId peer)"

definition getRoom :: "RoomManager \<Rightarrow> string \<Rightarrow> Room option" where
  "getRoom rm roomId = rooms rm roomId"

subsection \<open>Registry invariants\<close>

text \<open>
  The two indices agree when every peer that names a room is a member of that room, and
  every member of a room has a peer record that names it. A member list stands for a
  set, so the capacity bound on its length comes with its being free of repetitions.
\<close>

definition index_consistent :: "RoomManager \<Rightarrow> bool" where
  "index_consistent rm \<longleftrightarrow>
     (\<forall>s p r. peers rm s = Some p \<and> peer_roomId p = Some r \<longrightarrow>
        (\<exists>room. rooms rm r = Some room \<and> s \<in> set (room_peers room))) \<and>
     (\<forall>r room s. rooms rm r = Some room \<and> s \<in> set (room_peers room) \<longrightarrow>
        (\<exists>p. peers rm s = Some p \<and> peer_roomId p = Some r))"

definition single_room :: "RoomManager \<Rightarrow> bool" where
  "single_room rm \<longleftrightarrow>
     (\<forall>r1 r2 room1 room2 s.
        rooms rm r1 = Some room1 \<and> rooms rm r2 = Some room2 \<and>
        s \<in> set (room_peers room1) \<and> s \<in> set (room_peers room2) \<longrightarrow> r1 = r2)"

definition no_empty_room :: "RoomManager \<Rightarrow> bool" where
  "no_empty_room rm \<longleftrightarrow> (\<forall>r room. rooms rm r = Some room \<longrightarrow> room_peers room \<noteq> [])"

definition within_capacity :: "RoomManager \<Rightarrow> bool" where
  "within_capacity rm \<longleftrightarrow>
     (\<forall>r room. rooms rm r = Some room \<longrightarrow>
        distinct (room_peers room) \<and> length (room_peers room) \<le> room_maxParticipants room)"

definition registry_inv :: "RoomManager \<Rightarrow> bool" where
  "registry_inv rm \<longleftrightarrow>
     index_consistent rm \<and> single_room rm \<and> no_empty_room rm \<and> within_capacity rm"

text \<open>The registries the four mutating methods can build from the empty one.\<close>

inductive reachable :: "RoomManager \<Rightarrow> bool" where
  reach_empty: "reachable emptyRoomManager"
| reach_register: "reachable rm \<Longrightarrow> reachable (snd (registerPeer s rm))"
| reach_join: "reachable rm \<Longrightarrow> reachable (snd (joinRoom s r u a rm))"
| reach_leave: "reachable rm \<Longrightarrow> reachable (snd (leaveRoom s rm))"
| reach_remove: "reachable rm \<Longrightarrow> reachable (snd (removePeer s rm))"

section \<open>Access grants (apps/api/src/modules/token)\<close>

datatype AppError =
    ValidationError string
  | NotFoundError string string
  | ForbiddenError string

text \<open>
  What a service function throws: one of the typed errors, or an exception that is not
  an \<open>AppError\<close> (a \<open>RangeError\<close> or an \<open>Error\<close> of the runtime or of a package).
\<close>

datatype Exception = AppErr AppError | OtherError

record TokenClaims =
  claims_jti :: string
  claims_appId :: string
  claims_roomId :: string
  claims_userId :: string
  claims_role :: string

record TokenPayload = TokenClaims +
  payload_iat :: nat
  payload_exp :: nat

text \<open>
  The package \<open>jsonwebtoken\<close>, which the repository imports and does not contain,
  signs and verifies the tokens. A token is its decoded payload together with the secret
  its signature was computed under; a string that does not parse as a token is
  \<open>Malformed\<close>. Times are seconds. The package is generic: \<open>jti\<close>, \<open>appId\<close>,
  \<open>roomId\<close>, \<open>userId\<close> and \<open>role\<close> are claims of this application that it signs and
  returns and does not interpret. They are strings here, as the type \<open>TokenClaims\<close>
  declares them. A join message carries its token in this decoded form.
\<close>

datatype Token = SignedToken TokenPayload string | Malformed string

datatype JwtError = TokenExpiredError | JsonWebTokenError

text \<open>
  Modelled from the spec: \<open>jwt.sign\<close> of the package \<open>jsonwebtoken\<close>, which is not in
  the repository. The spec gives the token as the payload fields \<open>jti\<close>, \<open>appId\<close>,
  \<open>roomId\<close>, \<open>userId\<close>, \<open>role\<close>, \<open>iat\<close> and \<open>exp\<close>, signed with HMAC-SHA256 under the
  shared signing secret; \<open>exp\<close> is the time of signing plus the time to live.
\<close>

definition jwt_sign :: "TokenClaims \<Rightarrow> string \<Rightarrow> nat \<Rightarrow> nat \<Rightarrow> Token" where
  "jwt_sign claims secret expiresIn signTime =
     SignedToken (TokenClaims.extend claims
                    (TokenPayload.fields signTime (signTime + expiresIn))) secret"

text \<open>
  Modelled from the spec: \<open>jwt.verify\<close> of the package \<open>jsonwebtoken\<close>, which is not in
  the repository. The spec has verification reject a signature that does not verify
  under the verifier's secret, and an \<open>exp\<close> that is not in the future (a token whose
  \<open>exp\<close> is exactly now is rejected); the signature is checked first. What the spec
  says of malformed claims is about \<open>verifyToken\<close> and the join handler, which are in
  the repository and are modelled from their source below.
\<close>

definition jwt_verify :: "Token \<Rightarrow> string \<Rightarrow> nat \<Rightarrow> JwtError + TokenPayload" where
  "jwt_verify token secret now =
     (case token of
        Malformed _ \<Rightarrow> Inl JsonWebTokenError
      | SignedToken payload key \<Rightarrow>
          if key \<noteq> secret then Inl JsonWebTokenError
          else if now \<ge> payload_exp payload then Inl TokenExpiredError
          else Inr payload)"

text \<open>
  The part of \<open>config\<close> that the token service reads. Each field is an environment
  variable or, when that is unset or empty, a default: neither is ever the empty
  string.
\<close>

record Config =
  jwt_secret :: string
  jwt_expiresIn :: string

text \<open>The row of the \<open>Room\<close> table that \<open>getRoomInternal\<close> reads (Prisma).\<close>

record ApiRoom =
  api_room_id :: string
  api_room_appId :: string
  api_room_name :: string
  api_room_maxParticipants :: nat

record CreateTokenInput =
  input_userId :: string
  input_role :: string
  input_expiresIn :: "string option"

record CreateTokenResponse =
  resp_token :: Token
  resp_expiresAt :: nat

definition VALID_ROLES :: "string list" where
  "VALID_ROLES = [''host'', ''participant'', ''viewer'']"

text \<open>
  \<open>String.prototype.trim\<close> removes white space and line terminators at both ends; on
  characters below 256 these are tab, line feed, vertical tab, form feed, carriage
  return, space and the no-break space.
\<close>

definition isWhiteSpace :: "char \<Rightarrow> bool" where
  "isWhiteSpace c \<longleftrightarrow> of_char c \<in> {9, 10, 11, 12, 13, 32, 160 :: nat}"

definition trim :: "string \<Rightarrow> string" where
  "trim s = rev (dropWhile isWhiteSpace (rev (dropWhile isWhiteSpace s)))"

definition isDigit :: "char \<Rightarrow> bool" where
  "isDigit c \<longleftrightarrow> 48 \<le> (of_char c :: nat) \<and> (of_char c :: nat) \<le> 57"

text \<open>
  The numbers this code computes from a digit string are doubles. A natural below
  \<open>2^53\<close> is held exactly, and so are the sums and products of naturals that stay
  below it. A natural of \<open>2^53\<close> or more is rounded to a double that is at least
  \<open>2^53\<close> (to \<open>Infinity\<close> when it is large enough), because rounding is monotone;
  such a number is \<open>Large\<close>, its value is not tracked, and its product with a positive
  natural and its sum with a natural are \<open>Large\<close> again.
\<close>

datatype JsNumber = Exact nat | Large

definition toNumber :: "nat \<Rightarrow> JsNumber" where
  "toNumber n = (if n < 2 ^ 53 then Exact n else Large)"

fun js_times :: "JsNumber \<Rightarrow> nat \<Rightarrow> JsNumber" where
  "js_times (Exact a) k = toNumber (a * k)"
| "js_times Large k = Large"

definition parseInt10 :: "string \<Rightarrow> JsNumber" where
  "parseInt10 ds = toNumber (foldl (\<lambda>n c. 10 * n + (of_char c - 48)) 0 ds)"

text \<open>
  \<open>parseExpiresIn\<close> matches the regular expression \<open>^(\d+)([smhd])$\<close>: one or more
  decimal digits and then one unit letter. The message of the format error is cut after
  its first sentence.
\<close>

definition matchesExpiresIn :: "string \<Rightarrow> bool" where
  "matchesExpiresIn expiresIn \<longleftrightarrow>
     expiresIn \<noteq> [] \<and> butlast expiresIn \<noteq> [] \<and> list_all isDigit (butlast expiresIn) \<and>
     last expiresIn \<in> set ''smhd''"

definition parseExpiresIn :: "string \<Rightarrow> AppError + JsNumber" where
  "parseExpiresIn expiresIn =
     (if matchesExpiresIn expiresIn
      then
        (let v = parseInt10 (butlast expiresIn); unit = last expiresIn
         in if unit = CHR ''s'' then Inr v
            else if unit = CHR ''m'' then Inr (js_times v 60)
            else if unit = CHR ''h'' then Inr (js_times (js_times v 60) 60)
            else if unit = CHR ''d'' then Inr (js_times (js_times (js_times v 60) 60) 24)
            else Inl (ValidationError ''Invalid time unit''))
      else Inl (ValidationError ''Invalid expiresIn format''))"

text \<open>
  The largest time value of a \<open>Date\<close>, in milliseconds: \<open>toISOString\<close> throws a
  \<open>RangeError\<close> on a date made from a larger number.
\<close>

definition MAX_TIME_VALUE :: nat where
  "MAX_TIME_VALUE = 8640000000000000"

text \<open>
  \<open>createToken\<close> reads the room table (\<open>db\<close>, the lookup of \<open>getRoomInternal\<close>), the
  clock in seconds (\<open>now\<close>; \<open>jwt.sign\<close> reads the clock again, \<open>signTime\<close>) and a
  fresh identifier (\<open>newJti\<close>, the result of \<open>generateJti\<close>). \<open>expiresAt\<close> is kept as
  the number of seconds it is formatted from. The token is signed before \<open>expiresAt\<close>
  is formatted, and \<open>new Date(exp * 1000).toISOString()\<close> throws when \<open>exp * 1000\<close>
  is beyond the range of \<open>Date\<close>; then no response is returned. That range ends below
  \<open>2^53\<close>, so a \<open>Large\<close> duration always ends in an exception (of \<open>toISOString\<close>, or
  of \<open>jwt.sign\<close> when the duration is \<open>Infinity\<close>), and every number of a returned
  response is exact.
\<close>

definition createToken ::
  "Config \<Rightarrow> (string \<rightharpoonup> ApiRoom) \<Rightarrow> nat \<Rightarrow> nat \<Rightarrow> string \<Rightarrow>
   string \<Rightarrow> string \<Rightarrow> CreateTokenInput \<Rightarrow> Exception + CreateTokenResponse" where
  "createToken config db now signTime newJti appId roomId input =
     (if appId = [] then Inl (AppErr (ValidationError ''App ID is required''))
      else if roomId = [] then Inl (AppErr (ValidationError ''Room ID is required''))
      else if input_userId input = [] \<or> length (trim (input_userId input)) = 0
      then Inl (AppErr (ValidationError ''User ID is required''))
      else if input_role input = [] \<or> input_role input \<notin> set VALID_ROLES
      then Inl (AppErr (ValidationError ''Role must be one of: host, participant, viewer''))
      else
        (case db roomId of
           None \<Rightarrow> Inl (AppErr (NotFoundError ''Room'' roomId))
         | Some room \<Rightarrow>
             if api_room_appId room \<noteq> appId
             then Inl (AppErr (ForbiddenError ''Room does not belong to this app''))
             else
               let expiresIn = (case input_expiresIn input of
                                  None \<Rightarrow> jwt_expiresIn config
                                | Some e \<Rightarrow> if e = [] then jwt_expiresIn config else e)
               in (case parseExpiresIn expiresIn of
                     Inl e \<Rightarrow> Inl (AppErr e)
                   | Inr Large \<Rightarrow> Inl OtherError
                   | Inr (Exact expiresInSeconds) \<Rightarrow>
                       let exp = now + expiresInSeconds;
                           claims = \<lparr>claims_jti = newJti, claims_appId = appId,
                                     claims_roomId = roomId,
                                     claims_userId = trim (input_userId input),
                                     claims_role = input_role input\<rparr>;
                           token = jwt_sign claims (jwt_secret config) expiresInSeconds signTime
                       in if exp * 1000 > MAX_TIME_VALUE then Inl OtherError
                          else Inr \<lparr>resp_token = token, resp_expiresAt = exp\<rparr>)))"

definition verifyToken :: "Config \<Rightarrow> nat \<Rightarrow> Token \<Rightarrow> AppError + TokenClaims" where
  "verifyToken config now token =
     (case jwt_verify token (jwt_secret config) now of
        Inr decoded \<Rightarrow>
          Inr \<lparr>claims_jti = claims_jti decoded, claims_appId = claims_appId decoded,
               claims_roomId = claims_roomId decoded, claims_userId = claims_userId decoded,
               claims_role = claims_role decoded\<rparr>
      | Inl TokenExpiredError \<Rightarrow> Inl (ValidationError ''Token has expired'')
      | Inl JsonWebTokenError \<Rightarrow> Inl (ValidationError ''Invalid token''))"

section \<open>Signaling endpoint (apps/signaling/src/server.ts)\<close>

text \<open>
  A socket is its id, whether its \<open>readyState\<close> is \<open>OPEN\<close>, and the heartbeat flag;
  the server is the list \<open>wss.clients\<close>. A handler returns the frames it writes and the
  transport operations it calls, in order, as a list of effects, and the registry after
  the call. The session description and the candidate of a negotiation frame are JSON
  objects the server never looks into: they are values of a type variable.
\<close>

record ExtendedWebSocket =
  ws_socketId :: string
  ws_open :: bool
  ws_isAlive :: bool

type_synonym WebSocketServer = "ExtendedWebSocket list"

datatype 'j OutgoingMessage =
    PeerJoinedMessage string bool
  | PeerLeftMessage string
  | RelayedOfferMessage 'j string
  | RelayedAnswerMessage 'j string
  | RelayedIceMessage 'j string
  | JoinedMessage string string "string list"
  | ErrorMessage string string

datatype 'j IncomingMessage =
    JoinMessage string Token
  | OfferMessage 'j
  | AnswerMessage 'j
  | IceCandidateMessage 'j
  | LeaveMessage

text \<open>
  The three outcomes of reading a frame: \<open>JSON.parse\<close> throws, \<open>isValidIncomingMessage\<close>
  is false, or the frame is one of the five messages.
\<close>

datatype 'j RawData = InvalidJson | InvalidFormat | Frame "'j IncomingMessage"

datatype 'j Effect =
    Send string "'j OutgoingMessage"
  | Ping string
  | Terminate string

definition SignalingErrorCodes :: "string list" where
  "SignalingErrorCodes =
     [''INVALID_MESSAGE'', ''INVALID_TOKEN'', ''TOKEN_EXPIRED'', ''ROOM_FULL'',
      ''NOT_IN_ROOM'', ''ALREADY_IN_ROOM'', ''INTERNAL_ERROR'']"

definition findSocket :: "WebSocketServer \<Rightarrow> string \<Rightarrow> ExtendedWebSocket option" where
  "findSocket wss socketId = find (\<lambda>c. ws_socketId c = socketId \<and> ws_open c) wss"

definition send :: "ExtendedWebSocket \<Rightarrow> 'j OutgoingMessage \<Rightarrow> 'j Effect list" where
  "send socket message = (if ws_open socket then [Send (ws_socketId socket) message] else [])"

definition sendError :: "ExtendedWebSocket \<Rightarrow> string \<Rightarrow> string \<Rightarrow> 'j Effect list" where
  "sendError socket c message = send socket (ErrorMessage c message)"

text \<open>
  The loop every handler runs over a list of socket ids: find the open socket of each id
  and send it the message.
\<close>

definition sendToPeers ::
  "WebSocketServer \<Rightarrow> string list \<Rightarrow> 'j OutgoingMessage \<Rightarrow> 'j Effect list" where
  "sendToPeers wss peerSocketIds message =
     concat (map (\<lambda>peerSocketId.
                    case findSocket wss peerSocketId of
                      None \<Rightarrow> []
                    | Some peerSocket \<Rightarrow> send peerSocket message) peerSocketIds)"

definition notifyPeerLeft :: "WebSocketServer \<Rightarrow> string list \<Rightarrow> string \<Rightarrow> 'j Effect list" where
  "notifyPeerLeft wss peerSocketIds userId = sendToPeers wss peerSocketIds (PeerLeftMessage userId)"

definition handleJoin ::
  "ExtendedWebSocket \<Rightarrow> string \<Rightarrow> Token \<Rightarrow> string \<Rightarrow> nat \<Rightarrow> WebSocketServer \<Rightarrow>
   RoomManager \<Rightarrow> 'j Effect list \<times> RoomManager" where
  "handleJoin socket roomId token jwtSecret now wss rm =
     (case jwt_verify token jwtSecret now of
        Inl TokenExpiredError \<Rightarrow> (sendError socket ''TOKEN_EXPIRED'' ''Token has expired'', rm)
      | Inl JsonWebTokenError \<Rightarrow> (sendError socket ''INVALID_TOKEN'' ''Invalid token'', rm)
      | Inr claims \<Rightarrow>
          if claims_roomId claims \<noteq> roomId
          then (sendError socket ''INVALID_TOKEN'' ''Token not valid for this room'', rm)
          else
            let existingPeers = getRoomUserIds rm roomId;
                (result, rm1) = joinRoom (ws_socketId socket) roomId (claims_userId claims)
                                  (claims_appId claims) rm
            in (case result of
                  JoinFailure err c \<Rightarrow> (sendError socket c err, rm1)
                | JoinSuccess \<Rightarrow>
                    (send socket (JoinedMessage roomId (claims_userId claims) existingPeers) @
                     sendToPeers wss (getRoomPeers rm1 (ws_socketId socket))
                       (PeerJoinedMessage (claims_userId claims) True),
                     rm1)))"

text \<open>
  The guard of the three relaying handlers and of \<open>handleLeave\<close>,
  \<open>!peer?.roomId || !peer.userId\<close>: the user id of a peer that has a room and a user
  id, both non-empty.
\<close>

definition relayUserId :: "RoomManager \<Rightarrow> string \<Rightarrow> string option" where
  "relayUserId rm socketId =
     (case getPeer rm socketId of
        None \<Rightarrow> None
      | Some peer \<Rightarrow>
          if \<not> truthy (peer_roomId peer) \<or> \<not> truthy (peer_userId peer) then None
          else peer_userId peer)"

definition handleOffer ::
  "ExtendedWebSocket \<Rightarrow> 'j \<Rightarrow> WebSocketServer \<Rightarrow> RoomManager \<Rightarrow> 'j Effect list" where
  "handleOffer socket sdp wss rm =
     (case relayUserId rm (ws_socketId socket) of
        None \<Rightarrow> sendError socket ''NOT_IN_ROOM'' ''Must join a room first''
      | Some userId \<Rightarrow>
          sendToPeers wss (getRoomPeers rm (ws_socketId socket)) (RelayedOfferMessage sdp userId))"

definition handleAnswer ::
  "ExtendedWebSocket \<Rightarrow> 'j \<Rightarrow> WebSocketServer \<Rightarrow> RoomManager \<Rightarrow> 'j Effect list" where
  "handleAnswer socket sdp wss rm =
     (case relayUserId rm (ws_socketId socket) of
        None \<Rightarrow> sendError socket ''NOT_IN_ROOM'' ''Must join a room first''
      | Some userId \<Rightarrow>
          sendToPeers wss (getRoomPeers rm (ws_socketId socket)) (RelayedAnswerMessage sdp userId))"

definition handleIce ::
  "ExtendedWebSocket \<Rightarrow> 'j \<Rightarrow> WebSocketServer \<Rightarrow> RoomManager \<Rightarrow> 'j Effect list" where
  "handleIce socket candidate wss rm =
     (case relayUserId rm (ws_socketId socket) of
        None \<Rightarrow> sendError socket ''NOT_IN_ROOM'' ''Must join a room first''
      | Some userId \<Rightarrow>
          sendToPeers wss (getRoomPeers rm (ws_socketId socket))
            (RelayedIceMessage candidate userId))"

definition handleLeave ::
  "ExtendedWebSocket \<Rightarrow> WebSocketServer \<Rightarrow> RoomManager \<Rightarrow> 'j Effect list \<times> RoomManager" where
  "handleLeave socket wss rm =
     (case relayUserId rm (ws_socketId socket) of
        None \<Rightarrow> ([], rm)
      | Some userId \<Rightarrow>
          (case leaveRoom (ws_socketId socket) rm of
             (None, rm1) \<Rightarrow> ([], rm1)
           | (Some (roomId, remainingPeers), rm1) \<Rightarrow>
               (notifyPeerLeft wss remainingPeers userId, rm1)))"

definition handleDisconnect ::
  "ExtendedWebSocket \<Rightarrow> WebSocketServer \<Rightarrow> RoomManager \<Rightarrow> 'j Effect list \<times> RoomManager" where
  "handleDisconnect socket wss rm =
     (case removePeer (ws_socketId socket) rm of
        (None, rm1) \<Rightarrow> ([], rm1)
      | (Some (roomId, remainingPeers, userId), rm1) \<Rightarrow>
          (notifyPeerLeft wss remainingPeers userId, rm1))"

definition handleMessage ::
  "ExtendedWebSocket \<Rightarrow> 'j RawData \<Rightarrow> string \<Rightarrow> nat \<Rightarrow> WebSocketServer \<Rightarrow>
   RoomManager \<Rightarrow> 'j Effect list \<times> RoomManager" where
  "handleMessage socket data jwtSecret now wss rm =
     (case data of
        InvalidJson \<Rightarrow> (sendError socket ''INVALID_MESSAGE'' ''Invalid JSON'', rm)
      | InvalidFormat \<Rightarrow> (sendError socket ''INVALID_MESSAGE'' ''Invalid message format'', rm)
      | Frame message \<Rightarrow>
          (case message of
             JoinMessage roomId token \<Rightarrow> handleJoin socket roomId token jwtSecret now wss rm
           | OfferMessage sdp \<Rightarrow> (handleOffer socket sdp wss rm, rm)
           | AnswerMessage sdp \<Rightarrow> (handleAnswer socket sdp wss rm, rm)
           | IceCandidateMessage candidate \<Rightarrow> (handleIce socket candidate wss rm, rm)
           | LeaveMessage \<Rightarrow> handleLeave socket wss rm))"

text \<open>
  One heartbeat tick on one client: a socket that has not answered the last ping is
  terminated, any other is marked and pinged. This is the only place where the server
  closes a transport.
\<close>

definition heartbeat :: "ExtendedWebSocket \<Rightarrow> 'j Effect list \<times> ExtendedWebSocket" where
  "heartbeat socket =
     (if \<not> ws_isAlive socket then ([Terminate (ws_socketId socket)], socket)
      else ([Ping (ws_socketId socket)], socket\<lparr>ws_isAlive := False\<rparr>))"

section \<open>Room service (apps/api/src/modules/room/room.service.ts)\<close>

record CreateRoomInput =
  input_name :: string
  input_maxParticipants :: "int option"

definition MAX_PARTICIPANTS_LIMIT :: int where
  "MAX_PARTICIPANTS_LIMIT = 1000"

text \<open>
  \<open>createRoom\<close> up to the row it asks Prisma to create: the trimmed name, the capacity
  and the owner.
\<close>

definition createRoom :: "string \<Rightarrow> CreateRoomInput \<Rightarrow> AppError + (string \<times> int \<times> string)" where
  "createRoom appId input =
     (if input_name input = [] \<or> length (trim (input_name input)) = 0
      then Inl (ValidationError ''Room name is required'')
      else if appId = [] then Inl (ValidationError ''App ID is required'')
      else
        let maxParticipants = (case input_maxParticipants input of
                                 None \<Rightarrow> int DEFAULT_MAX_PARTICIPANTS
                               | Some n \<Rightarrow> n)
        in if maxParticipants < 1 \<or> maxParticipants > MAX_PARTICIPANTS_LIMIT
           then Inl (ValidationError ''Max participants must be between 1 and 1000'')
           else Inr (trim (input_name input), maxParticipants, appId))"

section \<open>Members and connections\<close>

text \<open>
  The member list of a room (empty when the registry has no such room), and whether a
  socket id has an open socket among the server's clients.
\<close>

definition roomMembers :: "RoomManager \<Rightarrow> string \<Rightarrow> string list" where
  "roomMembers rm roomId = (case rooms rm roomId of None \<Rightarrow> [] | Some room \<Rightarrow> room_peers room)"

definition connected :: "WebSocketServer \<Rightarrow> string \<Rightarrow> bool" where
  "connected wss socketId \<longleftrightarrow> (\<exists>c \<in> set wss. ws_socketId c = socketId \<and> ws_open c)"

fun isSend :: "'j Effect \<Rightarrow> bool" where
  "isSend (Send _ _) = True"
| "isSend (Ping _) = False"
| "isSend (Terminate _) = False"

section \<open>Capacity of the rooms of the registry\<close>

definition capacity_two :: "RoomManager \<Rightarrow> bool" where
  "capacity_two rm \<longleftrightarrow>
     (\<forall>r room. rooms rm r = Some room \<longrightarrow>
        room_maxParticipants room = 2 \<and> distinct (room_peers room) \<and>
        length (room_peers room) \<le> 2)"

section \<open>Example registries\<close>

definition newRoom :: "string \<Rightarrow> string \<Rightarrow> Room" where
  "newRoom roomId appId = \<lparr>room_id = roomId, room_appId = appId, room_peers = [],
                            room_maxParticipants = DEFAULT_MAX_PARTICIPANTS\<rparr>"

definition registry_alice :: RoomManager where
  "registry_alice =
     snd (joinRoom ''c1'' ''R'' ''alice'' ''T'' (snd (registerPeer ''c1'' emptyRoomManager)))"

definition registry_unnamed_room :: RoomManager where
  "registry_unnamed_room =
     snd (joinRoom ''c1'' [] ''alice'' ''T'' (snd (registerPeer ''c1'' emptyRoomManager)))"

definition registry_full :: RoomManager where
  "registry_full =
     snd (registerPeer ''c3''
       (snd (joinRoom ''c2'' ''R'' ''bob'' ''T'' (snd (registerPeer ''c2'' registry_alice)))))"

section \<open>Issued claims and example grants\<close>

text \<open>
  The time to live \<open>createToken\<close> parses (the input's, or the configured default when
  it is absent or empty) and the claim object it signs; a configuration, a room table
  and a payload for the examples.
\<close>

definition effectiveExpiresIn :: "Config \<Rightarrow> CreateTokenInput \<Rightarrow> string" where
  "effectiveExpiresIn config input =
     (case input_expiresIn input of
        None \<Rightarrow> jwt_expiresIn config
      | Some e \<Rightarrow> if e = [] then jwt_expiresIn config else e)"

definition issuedClaims :: "string \<Rightarrow> string \<Rightarrow> string \<Rightarrow> CreateTokenInput \<Rightarrow> TokenClaims" where
  "issuedClaims newJti appId roomId input =
     \<lparr>claims_jti = newJti, claims_appId = appId, claims_roomId = roomId,
      claims_userId = trim (input_userId input), claims_role = input_role input\<rparr>"

definition example_config :: Config where
  "example_config = \<lparr>jwt_secret = ''dev-secret'', jwt_expiresIn = ''1h''\<rparr>"

definition example_db :: "string \<rightharpoonup> ApiRoom" where
  "example_db = [''R'' \<mapsto> \<lparr>api_room_id = ''R'', api_room_appId = ''T'', api_room_name = ''r'',
                           api_room_maxParticipants = 2\<rparr>]"

definition forged_payload :: TokenPayload where
  "forged_payload =
     \<lparr>claims_jti = ''j1'', claims_appId = ''T'', claims_roomId = ''R'', claims_userId = [],
      claims_role = ''admin'', payload_iat = 1000, payload_exp = 4600\<rparr>"

section \<open>Example connections\<close>

definition example_wss :: WebSocketServer where
  "example_wss =
     [\<lparr>ws_socketId = ''c1'', ws_open = True, ws_isAlive = True\<rparr>,
      \<lparr>ws_socketId = ''c2'', ws_open = True, ws_isAlive = True\<rparr>,
      \<lparr>ws_socketId = ''c3'', ws_open = True, ws_isAlive = True\<rparr>]"

definition socket_c1 :: ExtendedWebSocket where
  "socket_c1 = \<lparr>ws_socketId = ''c1'', ws_open = True, ws_isAlive = True\<rparr>"

definition socket_c3 :: ExtendedWebSocket where
  "socket_c3 = \<lparr>ws_socketId = ''c3'', ws_open = True, ws_isAlive = True\<rparr>"

definition socket_c2 :: ExtendedWebSocket where
  "socket_c2 = \<lparr>ws_socketId = ''c2'', ws_open = True, ws_isAlive = True\<rparr>"

definition registry_alice_c2 :: RoomManager where
  "registry_alice_c2 = snd (registerPeer ''c2'' registry_alice)"

definition bob_payload :: TokenPayload where
  "bob_payload =
     \<lparr>claims_jti = ''j2'', claims_appId = ''T'', claims_roomId = ''R'',
      claims_userId = ''bob'', claims_role = ''participant'',
      payload_iat = 1000, payload_exp = 4600\<rparr>"

definition registry_c1 :: RoomManager where
  "registry_c1 = snd (registerPeer ''c1'' emptyRoomManager)"

definition unknown_role_payload :: TokenPayload where
  "unknown_role_payload =
     \<lparr>claims_jti = ''j4'', claims_appId = ''T'', claims_roomId = ''R'',
      claims_userId = ''mallory'', claims_role = ''moderator'',
      payload_iat = 1000, payload_exp = 4600\<rparr>"

definition carol_token :: Token where
  "carol_token =
     SignedToken
       \<lparr>claims_jti = ''j3'', claims_appId = ''T'', claims_roomId = ''R'',
        claims_userId = ''carol'', claims_role = ''participant'',
        payload_iat = 1000, payload_exp = 4600\<rparr> ''dev-secret''"

section \<open>Examples with empty ids and a closed socket\<close>

text \<open>
  The registry after the endpoint has admitted the connection \<open>c1\<close> with the signed
  payload whose user id is empty, and after a second connection has registered and
  after \<open>bob\<close> has joined the same room on it; the same for the room whose id is the
  empty string; and the clients when the socket of \<open>c2\<close> is no longer open.
\<close>

definition registry_forged :: RoomManager where
  "registry_forged =
     snd (handleJoin socket_c1 ''R'' (SignedToken forged_payload ''dev-secret'') ''dev-secret''
            2000 example_wss registry_c1 :: string Effect list \<times> RoomManager)"

definition registry_forged_c2 :: RoomManager where
  "registry_forged_c2 = snd (registerPeer ''c2'' registry_forged)"

definition registry_forged_bob :: RoomManager where
  "registry_forged_bob = snd (joinRoom ''c2'' ''R'' ''bob'' ''T'' registry_forged_c2)"

definition registry_unnamed_c2 :: RoomManager where
  "registry_unnamed_c2 = snd (registerPeer ''c2'' registry_unnamed_room)"

definition registry_unnamed_bob :: RoomManager where
  "registry_unnamed_bob = snd (joinRoom ''c2'' [] ''bob'' ''T'' registry_unnamed_c2)"

definition unnamed_room_payload :: TokenPayload where
  "unnamed_room_payload =
     \<lparr>claims_jti = ''j5'', claims_appId = ''T'', claims_roomId = [],
      claims_userId = ''bob'', claims_role = ''participant'',
      payload_iat = 1000, payload_exp = 4600\<rparr>"

definition wss_c2_closed :: WebSocketServer where
  "wss_c2_closed =
     [\<lparr>ws_socketId = ''c1'', ws_open = True, ws_isAlive = True\<rparr>,
      \<lparr>ws_socketId = ''c2'', ws_open = False, ws_isAlive = True\<rparr>,
      \<lparr>ws_socketId = ''c3'', ws_open = True, ws_isAlive = True\<rparr>]"

section \<open>Properties of the presence registry\<close>

lemma set_add_set [simp]: "set (set_add x xs) = insert x (set xs)"
  by (auto simp: set_add_def)

lemma set_add_distinct [simp]: "distinct xs \<Longrightarrow> distinct (set_add x xs)"
  by (simp add: set_add_def)

lemma set_add_length: "length (set_add x xs) \<le> Suc (length xs)"
  by (simp add: set_add_def)

lemma set_add_nonempty [simp]: "set_add x xs \<noteq> []"
  by (auto simp: set_add_def)

lemma set_delete_set [simp]: "set (set_delete x xs) = set xs - {x}"
  by (auto simp: set_delete_def)

lemma set_delete_distinct [simp]: "distinct xs \<Longrightarrow> distinct (set_delete x xs)"
  by (simp add: set_delete_def distinct_removeAll)

lemma set_delete_length: "length (set_delete x xs) \<le> length xs"
  by (simp add: set_delete_def removeAll_filter_not_eq)

lemma register_inv:
  assumes "registry_inv rm" and "\<forall>p. peers rm s = Some p \<longrightarrow> peer_roomId p = None"
  shows "registry_inv (snd (registerPeer s rm))"
proof -
  let ?rm' = "snd (registerPeer s rm)"
  have rs: "rooms ?rm' = rooms rm" by (simp add: registerPeer_def Let_def)
  have ps: "\<And>x. x \<noteq> s \<Longrightarrow> peers ?rm' x = peers rm x"
    by (simp add: registerPeer_def Let_def)
  have pss: "\<exists>p. peers ?rm' s = Some p \<and> peer_roomId p = None"
    by (simp add: registerPeer_def Let_def)
  have notin: "\<And>r room. rooms rm r = Some room \<Longrightarrow> s \<notin> set (room_peers room)"
    using assms unfolding registry_inv_def index_consistent_def by fastforce
  have "index_consistent ?rm'"
    unfolding index_consistent_def
  proof (intro conjI allI impI)
    fix x p r assume "peers ?rm' x = Some p \<and> peer_roomId p = Some r"
    then show "\<exists>room. rooms ?rm' r = Some room \<and> x \<in> set (room_peers room)"
      using assms(1) pss ps rs unfolding registry_inv_def index_consistent_def
      by (cases "x = s") auto
  next
    fix r room x assume "rooms ?rm' r = Some room \<and> x \<in> set (room_peers room)"
    then show "\<exists>p. peers ?rm' x = Some p \<and> peer_roomId p = Some r"
      using assms(1) notin ps rs unfolding registry_inv_def index_consistent_def
      by (cases "x = s") auto
  qed
  moreover have "single_room ?rm'" "no_empty_room ?rm'" "within_capacity ?rm'"
    using assms(1) rs unfolding registry_inv_def single_room_def no_empty_room_def within_capacity_def
    by simp_all
  ultimately show ?thesis by (simp add: registry_inv_def)
qed

lemma joinRoom_failure_unchanged:
  "fst (joinRoom s r u a rm) \<noteq> JoinSuccess \<Longrightarrow> snd (joinRoom s r u a rm) = rm"
  by (auto simp: joinRoom_def Let_def DEFAULT_MAX_PARTICIPANTS_def map_upd_triv
           split: option.splits if_splits)

lemma joinRoom_success:
  assumes "fst (joinRoom s r u a rm) = JoinSuccess"
  shows "\<exists>peer room.
           peers rm s = Some peer \<and> peer_roomId peer = None \<and>
           room = (case rooms rm r of Some x \<Rightarrow> x | None \<Rightarrow> newRoom r a) \<and>
           length (room_peers room) < room_maxParticipants room \<and>
           (room_peers room = [] \<or> room_appId room = a) \<and>
           snd (joinRoom s r u a rm) =
             \<lparr>rooms = (rooms rm)(r \<mapsto> room\<lparr>room_peers := set_add s (room_peers room)\<rparr>),
              peers = (peers rm)(s \<mapsto> peer\<lparr>peer_roomId := Some r, peer_userId := Some u,
                                             peer_appId := Some a\<rparr>)\<rparr>"
  using assms
  by (auto simp: joinRoom_def Let_def newRoom_def split: option.splits if_splits)

lemma join_inv:
  assumes inv: "registry_inv rm"
  shows "registry_inv (snd (joinRoom s r u a rm))"
proof (cases "fst (joinRoom s r u a rm) = JoinSuccess")
  case False
  then show ?thesis using inv by (simp add: joinRoom_failure_unchanged)
next
  case True
  let ?rm' = "snd (joinRoom s r u a rm)"
  from joinRoom_success [OF True] obtain peer room where
    p: "peers rm s = Some peer" "peer_roomId peer = None" and
    room: "room = (case rooms rm r of Some x \<Rightarrow> x | None \<Rightarrow> newRoom r a)" and
    cap: "length (room_peers room) < room_maxParticipants room" and
    rm': "?rm' = \<lparr>rooms = (rooms rm)(r \<mapsto> room\<lparr>room_peers := set_add s (room_peers room)\<rparr>),
              peers = (peers rm)(s \<mapsto> peer\<lparr>peer_roomId := Some r, peer_userId := Some u,
                                             peer_appId := Some a\<rparr>)\<rparr>"
    by blast
  have ic: "index_consistent rm" and sr: "single_room rm" and ne: "no_empty_room rm"
    and wc: "within_capacity rm"
    using inv by (simp_all add: registry_inv_def)
  have notin: "\<And>q room0. rooms rm q = Some room0 \<Longrightarrow> s \<notin> set (room_peers room0)"
    using ic p unfolding index_consistent_def by fastforce
  have old: "\<And>x. x \<in> set (room_peers room) \<Longrightarrow> rooms rm r = Some room"
    by (cases "rooms rm r") (simp_all add: room newRoom_def)
  have "index_consistent ?rm'"
    unfolding index_consistent_def
  proof (intro conjI allI impI)
    fix x p0 q assume a: "peers ?rm' x = Some p0 \<and> peer_roomId p0 = Some q"
    show "\<exists>room0. rooms ?rm' q = Some room0 \<and> x \<in> set (room_peers room0)"
    proof (cases "x = s")
      case True
      then show ?thesis using a by (auto simp: rm')
    next
      case False
      with a have "peers rm x = Some p0" by (simp add: rm')
      with a ic obtain room0 where r0: "rooms rm q = Some room0" "x \<in> set (room_peers room0)"
        unfolding index_consistent_def by blast
      then show ?thesis by (cases "q = r") (auto simp: rm' room)
    qed
  next
    fix q rr x assume a: "rooms ?rm' q = Some rr \<and> x \<in> set (room_peers rr)"
    show "\<exists>p0. peers ?rm' x = Some p0 \<and> peer_roomId p0 = Some q"
    proof (cases "x = s")
      case True
      with a notin have "q = r" by (auto simp: rm' split: if_splits)
      then show ?thesis using True by (simp add: rm')
    next
      case False
      with a have "\<exists>room0. rooms rm q = Some room0 \<and> x \<in> set (room_peers room0)"
        using old by (auto simp: rm' split: if_splits)
      then show ?thesis using ic False unfolding index_consistent_def by (auto simp: rm')
    qed
  qed
  moreover have "single_room ?rm'"
    unfolding single_room_def
  proof (intro allI impI)
    fix r1 r2 room1 room2 x
    assume a: "rooms ?rm' r1 = Some room1 \<and> rooms ?rm' r2 = Some room2 \<and>
        x \<in> set (room_peers room1) \<and> x \<in> set (room_peers room2)"
    show "r1 = r2"
    proof (cases "x = s")
      case True
      with a notin show ?thesis by (auto simp: rm' split: if_splits)
    next
      case False
      with a have "\<exists>room0. rooms rm r1 = Some room0 \<and> x \<in> set (room_peers room0)"
        "\<exists>room0. rooms rm r2 = Some room0 \<and> x \<in> set (room_peers room0)"
        using old by (auto simp: rm' split: if_splits)
      then show ?thesis using sr unfolding single_room_def by blast
    qed
  qed
  moreover have "no_empty_room ?rm'"
    using ne unfolding no_empty_room_def by (auto simp: rm' split: if_splits)
  moreover have "within_capacity ?rm'"
  proof -
    have "distinct (room_peers room)"
      using wc unfolding within_capacity_def by (cases "rooms rm r") (auto simp: room newRoom_def)
    moreover have "length (set_add s (room_peers room)) \<le> room_maxParticipants room"
      using cap set_add_length [of s "room_peers room"] by linarith
    ultimately show ?thesis
      using wc unfolding within_capacity_def by (auto simp: rm' split: if_splits)
  qed
  ultimately show ?thesis by (simp add: registry_inv_def)
qed

lemma leaveRoom_none:
  "fst (leaveRoom s rm) = None \<Longrightarrow> snd (leaveRoom s rm) = rm"
  by (auto simp: leaveRoom_def Let_def split: option.splits if_splits)

lemma leaveRoom_some:
  assumes "fst (leaveRoom s rm) = Some (r, rem)"
  shows "\<exists>peer room.
           peers rm s = Some peer \<and> peer_roomId peer = Some r \<and> r \<noteq> [] \<and>
           rooms rm r = Some room \<and> rem = set_delete s (room_peers room) \<and>
           snd (leaveRoom s rm) =
             \<lparr>rooms = (if rem = [] then (rooms rm)(r := None)
                       else (rooms rm)(r \<mapsto> room\<lparr>room_peers := rem\<rparr>)),
              peers = (peers rm)(s \<mapsto> peer\<lparr>peer_roomId := None, peer_userId := None,
                                             peer_appId := None\<rparr>)\<rparr>"
  using assms
  by (auto simp: leaveRoom_def Let_def split: option.splits if_splits)

lemma leave_inv:
  assumes inv: "registry_inv rm"
  shows "registry_inv (snd (leaveRoom s rm))"
proof (cases "fst (leaveRoom s rm)")
  case None
  then show ?thesis using inv by (simp add: leaveRoom_none)
next
  case (Some res)
  obtain r rem where res: "res = (r, rem)" by (cases res)
  let ?rm' = "snd (leaveRoom s rm)"
  from leaveRoom_some [of s rm r rem] Some res obtain peer room where
    p: "peers rm s = Some peer" "peer_roomId peer = Some r" and
    room: "rooms rm r = Some room" and
    rem: "rem = set_delete s (room_peers room)" and
    rm': "?rm' = \<lparr>rooms = (if rem = [] then (rooms rm)(r := None)
                       else (rooms rm)(r \<mapsto> room\<lparr>room_peers := rem\<rparr>)),
              peers = (peers rm)(s \<mapsto> peer\<lparr>peer_roomId := None, peer_userId := None,
                                             peer_appId := None\<rparr>)\<rparr>"
    by auto
  have ic: "index_consistent rm" and sr: "single_room rm" and ne: "no_empty_room rm"
    and wc: "within_capacity rm"
    using inv by (simp_all add: registry_inv_def)
  have s_in: "s \<in> set (room_peers room)"
    using ic p room unfolding index_consistent_def by fastforce
  have only_r: "\<And>q room0. rooms rm q = Some room0 \<Longrightarrow> s \<in> set (room_peers room0) \<Longrightarrow> q = r"
    using sr s_in room unfolding single_room_def by blast
  have rooms': "\<And>q rr. rooms ?rm' q = Some rr \<Longrightarrow>
      \<exists>room0. rooms rm q = Some room0 \<and> set (room_peers rr) = set (room_peers room0) - {s}
         \<and> room_peers rr \<noteq> [] \<and> distinct (room_peers rr)
         \<and> length (room_peers rr) \<le> room_maxParticipants room0
         \<and> room_maxParticipants rr = room_maxParticipants room0"
  proof -
    fix q rr assume a: "rooms ?rm' q = Some rr"
    show "\<exists>room0. rooms rm q = Some room0 \<and> set (room_peers rr) = set (room_peers room0) - {s}
         \<and> room_peers rr \<noteq> [] \<and> distinct (room_peers rr)
         \<and> length (room_peers rr) \<le> room_maxParticipants room0
         \<and> room_maxParticipants rr = room_maxParticipants room0"
    proof (cases "q = r")
      case True
      have "length rem \<le> room_maxParticipants room" "distinct rem"
        using wc room set_delete_length [of s "room_peers room"]
        unfolding within_capacity_def rem by fastforce+
      then show ?thesis using a True room by (auto simp: rm' rem split: if_splits)
    next
      case False
      then have old: "rooms rm q = Some rr" using a by (simp add: rm' split: if_splits)
      then have "s \<notin> set (room_peers rr)" using only_r False by blast
      then show ?thesis using old ne wc unfolding no_empty_room_def within_capacity_def by auto
    qed
  qed
  have "index_consistent ?rm'"
    unfolding index_consistent_def
  proof (intro conjI allI impI)
    fix x p0 q assume a: "peers ?rm' x = Some p0 \<and> peer_roomId p0 = Some q"
    then have xs: "x \<noteq> s" by (auto simp: rm')
    with a have "peers rm x = Some p0" by (simp add: rm')
    with a ic obtain room0 where r0: "rooms rm q = Some room0" "x \<in> set (room_peers room0)"
      unfolding index_consistent_def by blast
    show "\<exists>room0. rooms ?rm' q = Some room0 \<and> x \<in> set (room_peers room0)"
    proof (cases "q = r")
      case True
      then have "x \<in> set rem" using r0 room xs by (simp add: rem)
      then show ?thesis using True by (auto simp: rm')
    next
      case False
      then show ?thesis using r0 by (simp add: rm')
    qed
  next
    fix q rr x assume a: "rooms ?rm' q = Some rr \<and> x \<in> set (room_peers rr)"
    with rooms' [of q rr] obtain room0 where
      "rooms rm q = Some room0" "x \<in> set (room_peers room0)" "x \<noteq> s" by auto
    then show "\<exists>p0. peers ?rm' x = Some p0 \<and> peer_roomId p0 = Some q"
      using ic unfolding index_consistent_def by (auto simp: rm')
  qed
  moreover have "single_room ?rm'"
    unfolding single_room_def
  proof (intro allI impI)
    fix r1 r2 room1 room2 x
    assume a: "rooms ?rm' r1 = Some room1 \<and> rooms ?rm' r2 = Some room2 \<and>
        x \<in> set (room_peers room1) \<and> x \<in> set (room_peers room2)"
    with rooms' [of r1 room1] rooms' [of r2 room2]
    have "\<exists>room0. rooms rm r1 = Some room0 \<and> x \<in> set (room_peers room0)"
        "\<exists>room0. rooms rm r2 = Some room0 \<and> x \<in> set (room_peers room0)"
      by auto
    then show "r1 = r2" using sr unfolding single_room_def by blast
  qed
  moreover have "no_empty_room ?rm'"
    unfolding no_empty_room_def using rooms' by blast
  moreover have "within_capacity ?rm'"
    unfolding within_capacity_def using rooms' by fastforce
  ultimately show ?thesis by (simp add: registry_inv_def)
qed

lemma drop_peer_inv:
  assumes inv: "registry_inv rm"
    and free: "\<forall>p. peers rm s = Some p \<longrightarrow> peer_roomId p = None"
  shows "registry_inv (rm\<lparr>peers := (peers rm)(s := None)\<rparr>)"
proof -
  let ?rm' = "rm\<lparr>peers := (peers rm)(s := None)\<rparr>"
  have ic: "index_consistent rm" using inv by (simp add: registry_inv_def)
  have notin: "\<And>r room. rooms rm r = Some room \<Longrightarrow> s \<notin> set (room_peers room)"
    using ic free unfolding index_consistent_def by fastforce
  have "index_consistent ?rm'"
    unfolding index_consistent_def
  proof (intro conjI allI impI)
    fix x p r assume "peers ?rm' x = Some p \<and> peer_roomId p = Some r"
    then show "\<exists>room. rooms ?rm' r = Some room \<and> x \<in> set (room_peers room)"
      using ic unfolding index_consistent_def
      by (cases "x = s") auto
  next
    fix r room x assume "rooms ?rm' r = Some room \<and> x \<in> set (room_peers room)"
    then show "\<exists>p. peers ?rm' x = Some p \<and> peer_roomId p = Some r"
      using ic notin unfolding index_consistent_def
      by (cases "x = s") auto
  qed
  moreover have "single_room ?rm'" "no_empty_room ?rm'" "within_capacity ?rm'"
    using inv unfolding registry_inv_def single_room_def no_empty_room_def within_capacity_def
    by simp_all
  ultimately show ?thesis by (simp add: registry_inv_def)
qed

lemma removePeer_state:
  "snd (removePeer s rm) =
     (case peers rm s of None \<Rightarrow> rm
      | Some peer \<Rightarrow> (snd (leaveRoom s rm))\<lparr>peers := (peers (snd (leaveRoom s rm)))(s := None)\<rparr>)"
  by (auto simp: removePeer_def Let_def split: option.splits prod.splits if_splits)

lemma remove_inv:
  assumes inv: "registry_inv rm"
    and nonempty: "\<forall>p. peers rm s = Some p \<longrightarrow> peer_roomId p \<noteq> Some []"
  shows "registry_inv (snd (removePeer s rm))"
proof (cases "peers rm s")
  case None
  then show ?thesis using inv by (simp add: removePeer_state)
next
  case (Some peer)
  let ?rm1 = "snd (leaveRoom s rm)"
  have inv1: "registry_inv ?rm1" using inv by (rule leave_inv)
  have "\<forall>p. peers ?rm1 s = Some p \<longrightarrow> peer_roomId p = None"
  proof (cases "fst (leaveRoom s rm)")
    case None
    have ic: "index_consistent rm" using inv by (simp add: registry_inv_def)
    have "peer_roomId peer = None"
    proof (cases "peer_roomId peer")
      case (Some r)
      then have "r \<noteq> []" using nonempty \<open>peers rm s = Some peer\<close> by auto
      moreover obtain room where "rooms rm r = Some room"
        using ic Some \<open>peers rm s = Some peer\<close> unfolding index_consistent_def by blast
      ultimately have "fst (leaveRoom s rm) \<noteq> None"
        using Some \<open>peers rm s = Some peer\<close> by (simp add: leaveRoom_def Let_def)
      with None show ?thesis by simp
    qed simp
    then show ?thesis using None \<open>peers rm s = Some peer\<close> by (simp add: leaveRoom_none)
  next
    case (Some res)
    obtain r rem where "res = (r, rem)" by (cases res)
    with Some leaveRoom_some [of s rm r rem] show ?thesis by auto
  qed
  with inv1 have "registry_inv (?rm1\<lparr>peers := (peers ?rm1)(s := None)\<rparr>)"
    by (rule drop_peer_inv)
  then show ?thesis using Some by (simp add: removePeer_state)
qed

lemma empty_inv: "registry_inv emptyRoomManager"
  by (simp add: registry_inv_def index_consistent_def single_room_def no_empty_room_def
      within_capacity_def emptyRoomManager_def)

lemma registry_alice_eq:
  "registry_alice =
     \<lparr>rooms = [''R'' \<mapsto> \<lparr>room_id = ''R'', room_appId = ''T'', room_peers = [''c1''],
                              room_maxParticipants = 2\<rparr>],
      peers = [''c1'' \<mapsto> \<lparr>peer_socketId = ''c1'', peer_roomId = Some ''R'',
                               peer_userId = Some ''alice'', peer_appId = Some ''T''\<rparr>]\<rparr>"
  by (simp add: registry_alice_def joinRoom_def registerPeer_def emptyRoomManager_def Let_def
      DEFAULT_MAX_PARTICIPANTS_def set_add_def)

lemma registry_alice_inv: "registry_inv registry_alice"
  unfolding registry_alice_def
  by (intro join_inv register_inv empty_inv) (simp add: emptyRoomManager_def)

lemma registry_unnamed_room_eq:
  "registry_unnamed_room =
     \<lparr>rooms = [[] \<mapsto> \<lparr>room_id = [], room_appId = ''T'', room_peers = [''c1''],
                              room_maxParticipants = 2\<rparr>],
      peers = [''c1'' \<mapsto> \<lparr>peer_socketId = ''c1'', peer_roomId = Some [],
                               peer_userId = Some ''alice'', peer_appId = Some ''T''\<rparr>]\<rparr>"
  by (simp add: registry_unnamed_room_def joinRoom_def registerPeer_def emptyRoomManager_def Let_def
      DEFAULT_MAX_PARTICIPANTS_def set_add_def)

lemma registry_unnamed_room_inv: "registry_inv registry_unnamed_room"
  unfolding registry_unnamed_room_def
  by (intro join_inv register_inv empty_inv) (simp add: emptyRoomManager_def)

text \<open>
  Claim C1, as the code has it. Each of the four operations takes a registry that
  satisfies the invariants (the peer and room indices agree, no connection is a member
  of two rooms, no room is empty, no room has more members than its capacity) to one
  that satisfies them, with two provisos: \<open>registerPeer\<close> is called for a connection
  that is not in a room at the time, and \<open>removePeer\<close> for a peer whose room id is not
  the empty string. \<open>joinRoom\<close> and \<open>leaveRoom\<close> need no proviso.
\<close>

theorem registry_ops_preserve_inv:
  assumes "registry_inv rm"
  shows "((\<forall>p. peers rm s = Some p \<longrightarrow> peer_roomId p = None) \<longrightarrow>
            registry_inv (snd (registerPeer s rm))) \<and>
         registry_inv (snd (joinRoom s r u a rm)) \<and>
         registry_inv (snd (leaveRoom s rm)) \<and>
         ((\<forall>p. peers rm s = Some p \<longrightarrow> peer_roomId p \<noteq> Some []) \<longrightarrow>
            registry_inv (snd (removePeer s rm)))"
  using assms register_inv join_inv leave_inv remove_inv by blast

theorem registry_ops_preserve_inv_witness:
  "registry_inv (snd (registerPeer ''c2'' registry_alice)) \<and>
   registry_inv (snd (joinRoom ''c1'' ''R2'' ''alice'' ''T'' registry_alice)) \<and>
   registry_inv (snd (leaveRoom ''c1'' registry_alice)) \<and>
   registry_inv (snd (removePeer ''c1'' registry_alice))"
proof -
  have a: "\<forall>p. peers registry_alice ''c2'' = Some p \<longrightarrow> peer_roomId p = None"
    by (simp add: registry_alice_eq)
  have b: "\<forall>p. peers registry_alice ''c1'' = Some p \<longrightarrow> peer_roomId p \<noteq> Some []"
    by (simp add: registry_alice_eq)
  show ?thesis
    using registry_ops_preserve_inv [OF registry_alice_inv, of "''c2''" "''R2''" "''alice''" "''T''"]
      registry_ops_preserve_inv [OF registry_alice_inv, of "''c1''" "''R2''" "''alice''" "''T''"]
      a b
    by blast
qed

text \<open>
  Without the provisos the invariants break. Registering the id of an admitted
  connection again resets its peer record and leaves the id in the room's member set;
  removing a peer that joined the room named by the empty string deletes the peer record
  and leaves the id in that room, because \<open>leaveRoom\<close> reads the empty room id as no
  room.
\<close>

theorem registry_ops_break_inv:
  "registry_inv registry_alice \<and>
   \<not> registry_inv (snd (registerPeer ''c1'' registry_alice)) \<and>
   registry_inv registry_unnamed_room \<and>
   \<not> registry_inv (snd (removePeer ''c1'' registry_unnamed_room))"
proof -
  have "\<not> index_consistent (snd (registerPeer ''c1'' registry_alice))"
    unfolding index_consistent_def
    by (auto simp: registry_alice_eq registerPeer_def Let_def)
  moreover have "\<not> index_consistent (snd (removePeer ''c1'' registry_unnamed_room))"
    unfolding index_consistent_def
    by (auto simp: registry_unnamed_room_eq removePeer_def leaveRoom_def Let_def)
  ultimately show ?thesis
    using registry_alice_inv registry_unnamed_room_inv by (simp add: registry_inv_def)
qed

text \<open>
  Claim C8, as the code has it. \<open>registerPeer\<close> has no failure: whatever the registry
  holds for the connection id, it returns a new peer record with no room, user or
  tenant, stores it under the id in place of any earlier record, and leaves the rooms as
  they are; a second call in a row changes nothing more.
\<close>

theorem registerPeer_replaces:
  "fst (registerPeer s rm) =
     \<lparr>peer_socketId = s, peer_roomId = None, peer_userId = None, peer_appId = None\<rparr> \<and>
   getPeer (snd (registerPeer s rm)) s = Some (fst (registerPeer s rm)) \<and>
   rooms (snd (registerPeer s rm)) = rooms rm \<and>
   registerPeer s (snd (registerPeer s rm)) = registerPeer s rm"
  by (simp add: registerPeer_def getPeer_def Let_def)

text \<open>
  Registering the connection of the admitted user \<open>alice\<close> again returns a peer, not an
  error, and her record is replaced.
\<close>

theorem registerPeer_twice_replaces:
  "getPeer registry_alice ''c1'' =
     Some \<lparr>peer_socketId = ''c1'', peer_roomId = Some ''R'', peer_userId = Some ''alice'',
           peer_appId = Some ''T''\<rparr> \<and>
   fst (registerPeer ''c1'' registry_alice) =
     \<lparr>peer_socketId = ''c1'', peer_roomId = None, peer_userId = None, peer_appId = None\<rparr> \<and>
   getPeer (snd (registerPeer ''c1'' registry_alice)) ''c1'' =
     Some \<lparr>peer_socketId = ''c1'', peer_roomId = None, peer_userId = None, peer_appId = None\<rparr>"
  by (simp add: registry_alice_eq registerPeer_def getPeer_def Let_def)

lemma join_capacity_two:
  assumes "capacity_two rm"
  shows "capacity_two (snd (joinRoom s r u a rm))"
proof (cases "fst (joinRoom s r u a rm) = JoinSuccess")
  case False
  then show ?thesis using assms by (simp add: joinRoom_failure_unchanged)
next
  case True
  from joinRoom_success [OF True] obtain peer room where
    room: "room = (case rooms rm r of Some x \<Rightarrow> x | None \<Rightarrow> newRoom r a)" and
    cap: "length (room_peers room) < room_maxParticipants room" and
    rm': "snd (joinRoom s r u a rm) =
            \<lparr>rooms = (rooms rm)(r \<mapsto> room\<lparr>room_peers := set_add s (room_peers room)\<rparr>),
              peers = (peers rm)(s \<mapsto> peer\<lparr>peer_roomId := Some r, peer_userId := Some u,
                                             peer_appId := Some a\<rparr>)\<rparr>"
    by blast
  have m: "room_maxParticipants room = 2 \<and> distinct (room_peers room)"
    using assms unfolding capacity_two_def
    by (cases "rooms rm r") (auto simp: room newRoom_def DEFAULT_MAX_PARTICIPANTS_def)
  then have "length (set_add s (room_peers room)) \<le> 2"
    using cap set_add_length [of s "room_peers room"] by linarith
  then show ?thesis
    using assms m unfolding capacity_two_def by (auto simp: rm' split: if_splits)
qed

lemma leave_capacity_two:
  assumes "capacity_two rm"
  shows "capacity_two (snd (leaveRoom s rm))"
proof (cases "fst (leaveRoom s rm)")
  case None
  then show ?thesis using assms by (simp add: leaveRoom_none)
next
  case (Some res)
  obtain r rem where res: "res = (r, rem)" by (cases res)
  from leaveRoom_some [of s rm r rem] Some res obtain peer room where
    room: "rooms rm r = Some room" and
    rem: "rem = set_delete s (room_peers room)" and
    rm': "snd (leaveRoom s rm) = \<lparr>rooms = (if rem = [] then (rooms rm)(r := None)
                       else (rooms rm)(r \<mapsto> room\<lparr>room_peers := rem\<rparr>)),
              peers = (peers rm)(s \<mapsto> peer\<lparr>peer_roomId := None, peer_userId := None,
                                             peer_appId := None\<rparr>)\<rparr>"
    by auto
  have "room_maxParticipants room = 2 \<and> distinct rem \<and> length rem \<le> 2"
    using assms room set_delete_length [of s "room_peers room"]
    unfolding capacity_two_def rem by fastforce
  then show ?thesis
    using assms unfolding capacity_two_def by (auto simp: rm' split: if_splits)
qed

lemma reachable_capacity_two: "reachable rm \<Longrightarrow> capacity_two rm"
proof (induction rule: reachable.induct)
  case reach_empty
  then show ?case by (simp add: capacity_two_def emptyRoomManager_def)
next
  case (reach_register rm s)
  then show ?case by (simp add: capacity_two_def registerPeer_def Let_def)
next
  case (reach_join rm s r u a)
  then show ?case by (simp add: join_capacity_two)
next
  case (reach_leave rm s)
  then show ?case by (simp add: leave_capacity_two)
next
  case (reach_remove rm s)
  then have "capacity_two (snd (leaveRoom s rm))" by (simp add: leave_capacity_two)
  with reach_remove show ?case
    by (cases "peers rm s") (simp_all add: removePeer_state capacity_two_def)
qed

lemma joinRoom_full:
  assumes "rooms rm r = Some room" and "length (room_peers room) \<ge> room_maxParticipants room"
  shows "fst (joinRoom s r u a rm) \<noteq> JoinSuccess"
  using assms by (auto simp: joinRoom_def Let_def split: option.splits)

lemma joinRoom_full_same_app:
  assumes "rooms rm r = Some room" and "length (room_peers room) \<ge> room_maxParticipants room"
    and "peers rm s = Some peer" and "peer_roomId peer = None"
  shows "joinRoom s r u (room_appId room) rm = (JoinFailure ''Room is full'' ''ROOM_FULL'', rm)"
  using assms by (simp add: joinRoom_def Let_def map_upd_triv)

lemma registry_full_eq:
  "registry_full =
     \<lparr>rooms = [''R'' \<mapsto> \<lparr>room_id = ''R'', room_appId = ''T'', room_peers = [''c1'', ''c2''],
                              room_maxParticipants = 2\<rparr>],
      peers = [''c1'' \<mapsto> \<lparr>peer_socketId = ''c1'', peer_roomId = Some ''R'',
                               peer_userId = Some ''alice'', peer_appId = Some ''T''\<rparr>,
               ''c2'' \<mapsto> \<lparr>peer_socketId = ''c2'', peer_roomId = Some ''R'',
                               peer_userId = Some ''bob'', peer_appId = Some ''T''\<rparr>,
               ''c3'' \<mapsto> \<lparr>peer_socketId = ''c3'', peer_roomId = None,
                               peer_userId = None, peer_appId = None\<rparr>]\<rparr>"
  by (simp add: registry_full_def registry_alice_eq joinRoom_def registerPeer_def Let_def
      set_add_def)

lemma registry_full_reachable: "reachable registry_full"
  unfolding registry_full_def registry_alice_def
  by (intro reachable.intros)

text \<open>
  Claim C10. In every registry the operations can build, every room has
  \<open>maxParticipants = 2\<close> and at most two members; \<open>joinRoom\<close> takes no capacity
  argument, and on a room with two members it never succeeds: a registered connection
  that is in no room and presents the room's own tenant gets \<open>ROOM_FULL\<close>, and the
  registry is unchanged. The REST side, \<open>createRoom\<close>, accepts any capacity from 1 to
  1000 for the same room.
\<close>

theorem signaling_capacity_is_two:
  assumes "reachable rm" and "rooms rm r = Some room"
  shows "room_maxParticipants room = 2 \<and> length (room_peers room) \<le> 2 \<and>
         (length (room_peers room) = 2 \<longrightarrow>
            fst (joinRoom s r u a rm) \<noteq> JoinSuccess \<and>
            (getPeer rm s = Some peer \<and> peer_roomId peer = None \<and> a = room_appId room \<longrightarrow>
               joinRoom s r u a rm = (JoinFailure ''Room is full'' ''ROOM_FULL'', rm))) \<and>
         (name \<noteq> [] \<and> trim name \<noteq> [] \<and> app \<noteq> [] \<and> 1 \<le> n \<and> n \<le> 1000 \<longrightarrow>
            createRoom app \<lparr>input_name = name, input_maxParticipants = Some n\<rparr> =
              Inr (trim name, n, app))"
proof -
  have c: "room_maxParticipants room = 2" "length (room_peers room) \<le> 2"
    using reachable_capacity_two [OF assms(1)] assms(2) by (auto simp: capacity_two_def)
  moreover have "fst (joinRoom s r u a rm) \<noteq> JoinSuccess" if "length (room_peers room) = 2"
    using joinRoom_full [OF assms(2)] c that by simp
  moreover have "joinRoom s r u a rm = (JoinFailure ''Room is full'' ''ROOM_FULL'', rm)"
    if "length (room_peers room) = 2" "getPeer rm s = Some peer" "peer_roomId peer = None"
       "a = room_appId room"
    using joinRoom_full_same_app [OF assms(2)] c that by (simp add: getPeer_def)
  moreover have "createRoom app \<lparr>input_name = name, input_maxParticipants = Some n\<rparr> =
              Inr (trim name, n, app)"
    if "name \<noteq> []" "trim name \<noteq> []" "app \<noteq> []" "1 \<le> n" "n \<le> 1000"
    using that by (simp add: createRoom_def MAX_PARTICIPANTS_LIMIT_def)
  ultimately show ?thesis by blast
qed

theorem signaling_capacity_is_two_witness:
  "room_maxParticipants \<lparr>room_id = ''R'', room_appId = ''T'', room_peers = [''c1'', ''c2''],
      room_maxParticipants = 2\<rparr> = 2 \<and>
   fst (joinRoom ''c3'' ''R'' ''carol'' ''T'' registry_full) \<noteq> JoinSuccess \<and>
   joinRoom ''c3'' ''R'' ''carol'' ''T'' registry_full =
     (JoinFailure ''Room is full'' ''ROOM_FULL'', registry_full) \<and>
   createRoom ''T'' \<lparr>input_name = ''r'', input_maxParticipants = Some 1000\<rparr> =
     Inr (''r'', 1000, ''T'')"
proof -
  have r: "rooms registry_full ''R'' =
      Some \<lparr>room_id = ''R'', room_appId = ''T'', room_peers = [''c1'', ''c2''],
      room_maxParticipants = 2\<rparr>"
    by (simp add: registry_full_eq)
  have p: "getPeer registry_full ''c3'' = Some \<lparr>peer_socketId = ''c3'', peer_roomId = None,
                               peer_userId = None, peer_appId = None\<rparr>"
    by (simp add: registry_full_eq getPeer_def)
  have t: "trim ''r'' = ''r''" by (simp add: trim_def isWhiteSpace_def)
  show ?thesis
    using signaling_capacity_is_two [OF registry_full_reachable r, of "''c3''" "''carol''" "''T''"
        "\<lparr>peer_socketId = ''c3'', peer_roomId = None, peer_userId = None, peer_appId = None\<rparr>"
        "''r''" "''T''" 1000] p t
    by simp
qed

text \<open>
  Claim C6, as the code has it. When the room exists with members and its pinned tenant
  differs from the one supplied, \<open>joinRoom\<close> of a registered connection that is in no
  room fails with the message \<open>Room belongs to different app\<close> and the code
  \<open>INVALID_TOKEN\<close>, whether or not the room is full, and changes nothing.
\<close>

theorem joinRoom_tenant_mismatch:
  assumes "getPeer rm s = Some peer" and "peer_roomId peer = None"
    and "rooms rm r = Some room" and "room_peers room \<noteq> []" and "room_appId room \<noteq> a"
  shows "joinRoom s r u a rm = (JoinFailure ''Room belongs to different app'' ''INVALID_TOKEN'', rm)"
  using assms by (simp add: joinRoom_def getPeer_def Let_def map_upd_triv)

theorem joinRoom_tenant_mismatch_witness:
  "joinRoom ''c3'' ''R'' ''eve'' ''T2'' registry_full =
     (JoinFailure ''Room belongs to different app'' ''INVALID_TOKEN'', registry_full)"
proof -
  have r: "rooms registry_full ''R'' =
      Some \<lparr>room_id = ''R'', room_appId = ''T'', room_peers = [''c1'', ''c2''],
      room_maxParticipants = 2\<rparr>"
    by (simp add: registry_full_eq)
  have p: "getPeer registry_full ''c3'' = Some \<lparr>peer_socketId = ''c3'', peer_roomId = None,
                               peer_userId = None, peer_appId = None\<rparr>"
    by (simp add: registry_full_eq getPeer_def)
  show ?thesis
    using joinRoom_tenant_mismatch [OF p _ r, of "''T2''" "''eve''"] by simp
qed

text \<open>
  The code of that failure is not \<open>TENANT_MISMATCH\<close>, which is not among the
  signaling error codes at all.
\<close>

theorem tenant_mismatch_code_is_invalid_token:
  "fst (joinRoom ''c3'' ''R'' ''eve'' ''T2'' registry_full) =
     JoinFailure ''Room belongs to different app'' ''INVALID_TOKEN'' \<and>
   code (fst (joinRoom ''c3'' ''R'' ''eve'' ''T2'' registry_full)) \<noteq> ''TENANT_MISMATCH'' \<and>
   ''TENANT_MISMATCH'' \<notin> set SignalingErrorCodes"
  by (simp add: registry_full_eq joinRoom_def Let_def SignalingErrorCodes_def)

section \<open>Properties of grant issuance and verification\<close>

lemma jwt_verify_sign:
  "t < signTime + secs \<Longrightarrow>
   jwt_verify (jwt_sign claims secret secs signTime) secret t =
     Inr (TokenClaims.extend claims (TokenPayload.fields signTime (signTime + secs)))"
  by (simp add: jwt_verify_def jwt_sign_def TokenClaims.defs TokenPayload.defs)

lemma verifyToken_sign:
  "t < signTime + secs \<Longrightarrow>
   verifyToken config t (jwt_sign claims (jwt_secret config) secs signTime) = Inr claims"
  by (simp add: verifyToken_def jwt_verify_sign TokenClaims.defs TokenPayload.defs)

lemma createToken_valid:
  assumes "appId \<noteq> []" and "roomId \<noteq> []" and "trim (input_userId input) \<noteq> []"
    and "input_role input \<in> set VALID_ROLES"
    and "db roomId = Some room" and "api_room_appId room = appId"
    and "parseExpiresIn (effectiveExpiresIn config input) = Inr (Exact secs)"
    and "(now + secs) * 1000 \<le> MAX_TIME_VALUE"
  shows "createToken config db now signTime newJti appId roomId input =
           Inr \<lparr>resp_token = jwt_sign (issuedClaims newJti appId roomId input) (jwt_secret config)
                               secs signTime,
                resp_expiresAt = now + secs\<rparr>"
proof -
  have "input_userId input \<noteq> []" using assms(3) by (auto simp: trim_def)
  moreover have "input_role input \<noteq> []" using assms(4) by (auto simp: VALID_ROLES_def)
  ultimately show ?thesis
    using assms by (simp add: createToken_def Let_def effectiveExpiresIn_def issuedClaims_def)
qed

lemma trim_Nil_iff: "trim s = [] \<longleftrightarrow> list_all isWhiteSpace s"
proof
  assume "trim s = []"
  then have a: "\<forall>x \<in> set (dropWhile isWhiteSpace s). isWhiteSpace x"
    by (simp add: trim_def dropWhile_eq_Nil_conv)
  have "dropWhile isWhiteSpace s = []"
  proof (rule ccontr)
    assume n: "dropWhile isWhiteSpace s \<noteq> []"
    then have "\<not> isWhiteSpace (hd (dropWhile isWhiteSpace s))" by (rule hd_dropWhile)
    moreover have "hd (dropWhile isWhiteSpace s) \<in> set (dropWhile isWhiteSpace s)"
      using n by simp
    ultimately show False using a by blast
  qed
  then show "list_all isWhiteSpace s" by (simp add: dropWhile_eq_Nil_conv list_all_iff)
next
  assume "list_all isWhiteSpace s"
  then have d: "dropWhile isWhiteSpace s = []"
    by (simp add: dropWhile_eq_Nil_conv list_all_iff)
  show "trim s = []" unfolding trim_def d by simp
qed

lemma trim_unchanged:
  assumes "s \<noteq> []" and "\<not> isWhiteSpace (hd s)" and "\<not> isWhiteSpace (last s)"
  shows "trim s = s"
proof -
  have a: "dropWhile isWhiteSpace s = s" using assms(1,2) by (cases s) simp_all
  have "rev s = rev (butlast s @ [last s])" using assms(1) by simp
  then have r: "rev s = last s # rev (butlast s)" by (simp only: rev_append rev.simps append.simps)
  have "dropWhile isWhiteSpace (last s # rev (butlast s)) = last s # rev (butlast s)"
    using assms(3) by simp
  then have "dropWhile isWhiteSpace (rev s) = rev s" by (simp only: r)
  then show ?thesis by (simp add: trim_def a)
qed

text \<open>
  Claim C2, as the code has it. For a tenant id and a room id that are not empty, a user
  id that is not blank, one of the three roles, a room of the table owned by the tenant
  and a time to live that parses and ends within the range of \<open>Date\<close>, \<open>createToken\<close>
  returns a token, and \<open>verifyToken\<close> of that token at any time before its \<open>exp\<close>
  returns the generated \<open>jti\<close>, the tenant, the room and the role as supplied, and the
  user id with the white space at its ends removed, without \<open>iat\<close> and \<open>exp\<close>. The
  claims are exactly the supplied ones when the user id neither starts nor ends with
  white space.
\<close>

theorem verifyToken_createToken_roundtrip:
  assumes "appId \<noteq> []" and "roomId \<noteq> []" and "trim (input_userId input) \<noteq> []"
    and "input_role input \<in> set VALID_ROLES"
    and "db roomId = Some room" and "api_room_appId room = appId"
    and "parseExpiresIn (effectiveExpiresIn config input) = Inr (Exact secs)"
    and "(now + secs) * 1000 \<le> MAX_TIME_VALUE"
    and "t < signTime + secs"
  shows "\<exists>token. createToken config db now signTime newJti appId roomId input =
                    Inr \<lparr>resp_token = token, resp_expiresAt = now + secs\<rparr> \<and>
                  verifyToken config t token =
                    Inr \<lparr>claims_jti = newJti, claims_appId = appId, claims_roomId = roomId,
                         claims_userId = trim (input_userId input),
                         claims_role = input_role input\<rparr> \<and>
                  (\<not> isWhiteSpace (hd (input_userId input)) \<and>
                   \<not> isWhiteSpace (last (input_userId input)) \<longrightarrow>
                     verifyToken config t token =
                       Inr \<lparr>claims_jti = newJti, claims_appId = appId, claims_roomId = roomId,
                            claims_userId = input_userId input,
                            claims_role = input_role input\<rparr>)"
proof -
  let ?claims = "issuedClaims newJti appId roomId input"
  let ?token = "jwt_sign ?claims (jwt_secret config) secs signTime"
  have n: "input_userId input \<noteq> []" using assms(3) by (auto simp: trim_def)
  have "createToken config db now signTime newJti appId roomId input =
          Inr \<lparr>resp_token = ?token, resp_expiresAt = now + secs\<rparr>"
    using assms(1-8) by (rule createToken_valid)
  moreover have "verifyToken config t ?token = Inr ?claims"
    using assms(9) by (rule verifyToken_sign)
  moreover have "trim (input_userId input) = input_userId input"
    if "\<not> isWhiteSpace (hd (input_userId input)) \<and> \<not> isWhiteSpace (last (input_userId input))"
    using that n trim_unchanged by blast
  ultimately show ?thesis by (auto simp: issuedClaims_def)
qed

lemma parse_1h: "parseExpiresIn ''1h'' = Inr (Exact 3600)"
  by (simp add: parseExpiresIn_def matchesExpiresIn_def isDigit_def parseInt10_def Let_def
      toNumber_def)

lemma trim_alice: "trim ''alice'' = ''alice''" "trim '' alice '' = ''alice''"
  by (simp_all add: trim_def isWhiteSpace_def)

lemma example_room:
  "example_db ''R'' = Some \<lparr>api_room_id = ''R'', api_room_appId = ''T'',
      api_room_name = ''r'', api_room_maxParticipants = 2\<rparr>"
  by (simp add: example_db_def)

theorem verifyToken_createToken_roundtrip_witness:
  "\<exists>token. createToken example_config example_db 1000 1000 ''j1'' ''T'' ''R''
              \<lparr>input_userId = ''alice'', input_role = ''host'', input_expiresIn = Some ''1h''\<rparr> =
              Inr \<lparr>resp_token = token, resp_expiresAt = 4600\<rparr> \<and>
            verifyToken example_config 4599 token =
              Inr \<lparr>claims_jti = ''j1'', claims_appId = ''T'', claims_roomId = ''R'',
                   claims_userId = ''alice'', claims_role = ''host''\<rparr>"
proof -
  let ?input = "\<lparr>input_userId = ''alice'', input_role = ''host'', input_expiresIn = Some ''1h''\<rparr>"
  have p: "parseExpiresIn (effectiveExpiresIn example_config ?input) = Inr (Exact 3600)"
    by (simp add: effectiveExpiresIn_def parse_1h)
  have m: "(1000 + 3600) * 1000 \<le> MAX_TIME_VALUE" by (simp add: MAX_TIME_VALUE_def)
  show ?thesis
    using verifyToken_createToken_roundtrip [of "''T''" "''R''" ?input example_db
        "\<lparr>api_room_id = ''R'', api_room_appId = ''T'', api_room_name = ''r'',
          api_room_maxParticipants = 2\<rparr>" example_config 3600 1000 4599 1000 "''j1''"]
      p m example_room
    by (auto simp: trim_alice VALID_ROLES_def)
qed

text \<open>
  The user id \<open>alice\<close> written with a space on each side is not empty, and the token
  issued for it verifies to the user id without the spaces; the user id that is one
  space is not empty either, and no token is issued for it.
\<close>

theorem createToken_trims_userId:
  "createToken example_config example_db 1000 1000 ''j1'' ''T'' ''R''
     \<lparr>input_userId = '' alice '', input_role = ''host'', input_expiresIn = Some ''1h''\<rparr> =
     Inr \<lparr>resp_token =
            SignedToken
              \<lparr>claims_jti = ''j1'', claims_appId = ''T'', claims_roomId = ''R'',
               claims_userId = ''alice'', claims_role = ''host'',
               payload_iat = 1000, payload_exp = 4600\<rparr> ''dev-secret'',
          resp_expiresAt = 4600\<rparr> \<and>
   verifyToken example_config 2000
     (SignedToken
        \<lparr>claims_jti = ''j1'', claims_appId = ''T'', claims_roomId = ''R'',
         claims_userId = ''alice'', claims_role = ''host'',
         payload_iat = 1000, payload_exp = 4600\<rparr> ''dev-secret'') =
     Inr \<lparr>claims_jti = ''j1'', claims_appId = ''T'', claims_roomId = ''R'',
          claims_userId = ''alice'', claims_role = ''host''\<rparr> \<and>
   ''alice'' \<noteq> '' alice '' \<and>
   createToken example_config example_db 1000 1000 ''j1'' ''T'' ''R''
     \<lparr>input_userId = '' '', input_role = ''host'', input_expiresIn = Some ''1h''\<rparr> =
     Inl (AppErr (ValidationError ''User ID is required''))"
  by (simp add: createToken_def trim_def isWhiteSpace_def VALID_ROLES_def example_room parse_1h
      example_config_def MAX_TIME_VALUE_def jwt_sign_def verifyToken_def jwt_verify_def
      TokenClaims.defs TokenPayload.defs Let_def)

text \<open>
  A time to live of 100000000 days ends beyond the range of \<open>Date\<close>: the exception of
  \<open>toISOString\<close> is all the caller gets.
\<close>

lemma createToken_out_of_range:
  "createToken example_config example_db 1000 1000 ''j1'' ''T'' ''R''
     \<lparr>input_userId = ''alice'', input_role = ''host'',
      input_expiresIn = Some ''100000000d''\<rparr> = Inl OtherError"
  by (simp add: createToken_def trim_alice VALID_ROLES_def example_room
      parseExpiresIn_def matchesExpiresIn_def isDigit_def parseInt10_def toNumber_def
      example_config_def MAX_TIME_VALUE_def Let_def)

lemma parseExpiresIn_error:
  "parseExpiresIn e = Inl x \<Longrightarrow> x \<noteq> ValidationError ''User ID is required''"
  by (auto simp: parseExpiresIn_def Let_def split: if_splits)

lemma createToken_blank_userId:
  assumes "list_all isWhiteSpace (input_userId input)"
  shows "\<exists>m. createToken config db now signTime newJti appId roomId input =
               Inl (AppErr (ValidationError m))"
  using assms by (simp add: createToken_def trim_Nil_iff [symmetric])

lemma createToken_other_failure:
  assumes "\<not> list_all isWhiteSpace (input_userId input)"
  shows "createToken config db now signTime newJti appId roomId input \<noteq>
           Inl (AppErr (ValidationError ''User ID is required''))"
proof -
  have t: "trim (input_userId input) \<noteq> []" using assms by (simp add: trim_Nil_iff)
  then have n: "input_userId input \<noteq> []" by (auto simp: trim_def)
  show ?thesis
    using t n parseExpiresIn_error
    by (auto simp: createToken_def Let_def split: option.splits sum.splits JsNumber.splits)
qed

text \<open>
  Claim C9, as the code has it. \<open>createToken\<close> fails with a validation error, and
  returns no token, for every input whose user id is empty or blank. That is its only
  check of the user id: with a tenant id and a room id that are not empty it fails with
  \<open>User ID is required\<close> exactly when the user id is empty or blank, whatever the
  length.
\<close>

theorem createToken_userId_check:
  "(list_all isWhiteSpace (input_userId input) \<longrightarrow>
      (\<exists>m. createToken config db now signTime newJti appId roomId input =
             Inl (AppErr (ValidationError m)))) \<and>
   (appId \<noteq> [] \<and> roomId \<noteq> [] \<longrightarrow>
      (createToken config db now signTime newJti appId roomId input =
         Inl (AppErr (ValidationError ''User ID is required'')) \<longleftrightarrow>
       list_all isWhiteSpace (input_userId input)))"
proof (intro conjI impI)
  assume "list_all isWhiteSpace (input_userId input)"
  then show "\<exists>m. createToken config db now signTime newJti appId roomId input =
               Inl (AppErr (ValidationError m))"
    by (rule createToken_blank_userId)
next
  assume a: "appId \<noteq> [] \<and> roomId \<noteq> []"
  show "createToken config db now signTime newJti appId roomId input =
         Inl (AppErr (ValidationError ''User ID is required'')) \<longleftrightarrow>
       list_all isWhiteSpace (input_userId input)"
  proof
    assume "createToken config db now signTime newJti appId roomId input =
         Inl (AppErr (ValidationError ''User ID is required''))"
    then show "list_all isWhiteSpace (input_userId input)"
      using createToken_other_failure by blast
  next
    assume "list_all isWhiteSpace (input_userId input)"
    then have "trim (input_userId input) = []" by (simp add: trim_Nil_iff)
    then show "createToken config db now signTime newJti appId roomId input =
         Inl (AppErr (ValidationError ''User ID is required''))"
      using a by (simp add: createToken_def)
  qed
qed

theorem createToken_userId_check_witness:
  "createToken example_config example_db 1000 1000 ''j1'' ''T'' ''R''
     \<lparr>input_userId = '' '', input_role = ''host'', input_expiresIn = None\<rparr> =
     Inl (AppErr (ValidationError ''User ID is required'')) \<and>
   createToken example_config example_db 1000 1000 ''j1'' ''T'' ''R''
     \<lparr>input_userId = replicate 256 (CHR ''a''), input_role = ''host'',
      input_expiresIn = None\<rparr> \<noteq>
     Inl (AppErr (ValidationError ''User ID is required''))"
proof -
  have b: "list_all isWhiteSpace '' ''" by (simp add: isWhiteSpace_def)
  have l: "\<not> list_all isWhiteSpace (replicate 256 (CHR ''a''))"
    by (simp add: list_all_iff isWhiteSpace_def)
  have n: "''T'' \<noteq> [] \<and> ''R'' \<noteq> []" by simp
  show ?thesis
    using createToken_userId_check [of "\<lparr>input_userId = '' '', input_role = ''host'',
          input_expiresIn = None\<rparr>" example_config example_db 1000 1000 "''j1''" "''T''" "''R''"]
      createToken_userId_check [of "\<lparr>input_userId = replicate 256 (CHR ''a''),
          input_role = ''host'', input_expiresIn = None\<rparr>"
          example_config example_db 1000 1000 "''j1''" "''T''" "''R''"]
      b l n
    by simp
qed

text \<open>
  Called with a user id of 256 characters, \<open>createToken\<close> signs a token that carries
  it.
\<close>

theorem createToken_accepts_long_userId:
  "length (replicate 256 (CHR ''a'')) > 255 \<and>
   createToken example_config example_db 1000 1000 ''j1'' ''T'' ''R''
     \<lparr>input_userId = replicate 256 (CHR ''a''), input_role = ''host'', input_expiresIn = None\<rparr> =
   Inr \<lparr>resp_token =
          SignedToken
            \<lparr>claims_jti = ''j1'', claims_appId = ''T'', claims_roomId = ''R'',
             claims_userId = replicate 256 (CHR ''a''), claims_role = ''host'',
             payload_iat = 1000, payload_exp = 4600\<rparr> ''dev-secret'',
        resp_expiresAt = 4600\<rparr>"
proof -
  let ?input = "\<lparr>input_userId = replicate 256 (CHR ''a''), input_role = ''host'',
                 input_expiresIn = None\<rparr>"
  have t: "trim (replicate 256 (CHR ''a'')) = replicate 256 (CHR ''a'')"
    by (rule trim_unchanged) (simp_all add: isWhiteSpace_def)
  have p: "parseExpiresIn (effectiveExpiresIn example_config ?input) = Inr (Exact 3600)"
    by (simp add: effectiveExpiresIn_def example_config_def parse_1h)
  have m: "(1000 + 3600) * 1000 \<le> MAX_TIME_VALUE" by (simp add: MAX_TIME_VALUE_def)
  have "createToken example_config example_db 1000 1000 ''j1'' ''T'' ''R'' ?input =
      Inr \<lparr>resp_token = jwt_sign (issuedClaims ''j1'' ''T'' ''R'' ?input)
                           (jwt_secret example_config) 3600 1000,
           resp_expiresAt = 1000 + 3600\<rparr>"
    using example_room p m
      createToken_valid [of "''T''" "''R''" ?input example_db
        "\<lparr>api_room_id = ''R'', api_room_appId = ''T'', api_room_name = ''r'',
          api_room_maxParticipants = 2\<rparr>" example_config 3600 1000 1000 "''j1''"]
    by (simp add: t VALID_ROLES_def)
  then show ?thesis
    by (simp add: issuedClaims_def t jwt_sign_def example_config_def
        TokenClaims.defs TokenPayload.defs)
qed

section \<open>Properties of the signaling endpoint\<close>

lemma registry_c1_eq:
  "registry_c1 =
     \<lparr>rooms = Map.empty,
      peers = [''c1'' \<mapsto> \<lparr>peer_socketId = ''c1'', peer_roomId = None,
                               peer_userId = None, peer_appId = None\<rparr>]\<rparr>"
  by (simp add: registry_c1_def registerPeer_def emptyRoomManager_def Let_def)

lemma registry_alice_c2_eq:
  "registry_alice_c2 =
     \<lparr>rooms = [''R'' \<mapsto> \<lparr>room_id = ''R'', room_appId = ''T'', room_peers = [''c1''],
                              room_maxParticipants = 2\<rparr>],
      peers = [''c1'' \<mapsto> \<lparr>peer_socketId = ''c1'', peer_roomId = Some ''R'',
                               peer_userId = Some ''alice'', peer_appId = Some ''T''\<rparr>,
               ''c2'' \<mapsto> \<lparr>peer_socketId = ''c2'', peer_roomId = None,
                               peer_userId = None, peer_appId = None\<rparr>]\<rparr>"
  by (simp add: registry_alice_c2_def registry_alice_eq registerPeer_def Let_def)

lemma findSocket_connected: "findSocket wss m \<noteq> None \<longleftrightarrow> connected wss m"
  by (auto simp: findSocket_def connected_def find_None_iff)

lemma findSocket_id: "findSocket wss m = Some c \<Longrightarrow> ws_socketId c = m \<and> ws_open c"
  by (auto simp: findSocket_def find_Some_iff)

lemma sendToPeers_map:
  "sendToPeers wss ids msg = map (\<lambda>m. Send m msg) (filter (connected wss) ids)"
proof (induction ids)
  case Nil
  then show ?case by (simp add: sendToPeers_def)
next
  case (Cons m ids)
  have step: "sendToPeers wss (m # ids) msg =
      (case findSocket wss m of None \<Rightarrow> [] | Some c \<Rightarrow> send c msg) @ sendToPeers wss ids msg"
    by (simp add: sendToPeers_def)
  show ?case
  proof (cases "findSocket wss m")
    case None
    then have "\<not> connected wss m" using findSocket_connected [of wss m] by simp
    then show ?thesis using None Cons step by simp
  next
    case (Some c)
    then have "connected wss m" using findSocket_connected [of wss m] by simp
    moreover have "send c msg = [Send m msg]"
      using findSocket_id [OF Some] by (simp add: send_def)
    ultimately show ?thesis using Some Cons step by simp
  qed
qed

lemma getRoomPeers_admitted:
  assumes "getPeer rm sid = Some peer" and "peer_roomId peer = Some r" and "r \<noteq> []"
  shows "getRoomPeers rm sid = filter (\<lambda>m. m \<noteq> sid) (roomMembers rm r)"
  using assms by (simp add: getRoomPeers_def getPeer_def roomMembers_def split: option.splits)

lemma relayUserId_admitted:
  assumes "getPeer rm sid = Some peer" and "peer_roomId peer = Some r" and "r \<noteq> []"
    and "peer_userId peer = Some u" and "u \<noteq> []"
  shows "relayUserId rm sid = Some u"
  using assms by (simp add: relayUserId_def)

lemma relayUserId_unadmitted:
  assumes "\<forall>peer. getPeer rm sid = Some peer \<longrightarrow>
             \<not> truthy (peer_roomId peer) \<or> \<not> truthy (peer_userId peer)"
  shows "relayUserId rm sid = None"
  using assms by (auto simp: relayUserId_def split: option.splits)

lemma relay_targets:
  assumes "getPeer rm sid = Some peer" and "peer_roomId peer = Some r" and "r \<noteq> []"
  shows "sendToPeers wss (getRoomPeers rm sid) msg =
           map (\<lambda>m. Send m msg) (filter (\<lambda>m. m \<noteq> sid \<and> connected wss m) (roomMembers rm r))"
  by (simp add: sendToPeers_map getRoomPeers_admitted [OF assms] conj_commute)

text \<open>
  Claim C3, as the code has it. The sender's socket is open. When the sender's peer
  record holds a room id and a user id, both non-empty, an offer, an answer or an ice
  frame produces exactly one frame for each other member of that room that has an open
  socket among the server's clients, carrying the same session description or candidate
  and the sender's user id as \<open>fromUserId\<close>, and nothing else: no frame to the
  sender, no error; with no other member nothing is sent at all. When the sender has no
  peer record, no room, an empty room id or an empty user id, the only effect is the
  error \<open>NOT_IN_ROOM\<close> to the sender. The registry is unchanged in both cases.
\<close>

theorem negotiation_frames_relayed:
  assumes "ws_open socket"
  shows "(getPeer rm (ws_socketId socket) = Some peer \<and>
          peer_roomId peer = Some r \<and> r \<noteq> [] \<and> peer_userId peer = Some u \<and> u \<noteq> [] \<longrightarrow>
            handleMessage socket (Frame (OfferMessage x)) secret now wss rm =
              (map (\<lambda>m. Send m (RelayedOfferMessage x u))
                 (filter (\<lambda>m. m \<noteq> ws_socketId socket \<and> connected wss m) (roomMembers rm r)),
               rm) \<and>
            handleMessage socket (Frame (AnswerMessage x)) secret now wss rm =
              (map (\<lambda>m. Send m (RelayedAnswerMessage x u))
                 (filter (\<lambda>m. m \<noteq> ws_socketId socket \<and> connected wss m) (roomMembers rm r)),
               rm) \<and>
            handleMessage socket (Frame (IceCandidateMessage x)) secret now wss rm =
              (map (\<lambda>m. Send m (RelayedIceMessage x u))
                 (filter (\<lambda>m. m \<noteq> ws_socketId socket \<and> connected wss m) (roomMembers rm r)),
               rm) \<and>
            (set (roomMembers rm r) \<subseteq> {ws_socketId socket} \<longrightarrow>
               fst (handleMessage socket (Frame (OfferMessage x)) secret now wss rm) = [] \<and>
               fst (handleMessage socket (Frame (AnswerMessage x)) secret now wss rm) = [] \<and>
               fst (handleMessage socket (Frame (IceCandidateMessage x)) secret now wss rm) = [])) \<and>
         ((\<forall>p. getPeer rm (ws_socketId socket) = Some p \<longrightarrow>
               \<not> truthy (peer_roomId p) \<or> \<not> truthy (peer_userId p)) \<longrightarrow>
            handleMessage socket (Frame (OfferMessage x)) secret now wss rm =
              ([Send (ws_socketId socket) (ErrorMessage ''NOT_IN_ROOM'' ''Must join a room first'')],
               rm) \<and>
            handleMessage socket (Frame (AnswerMessage x)) secret now wss rm =
              ([Send (ws_socketId socket) (ErrorMessage ''NOT_IN_ROOM'' ''Must join a room first'')],
               rm) \<and>
            handleMessage socket (Frame (IceCandidateMessage x)) secret now wss rm =
              ([Send (ws_socketId socket) (ErrorMessage ''NOT_IN_ROOM'' ''Must join a room first'')],
               rm))"
proof (intro conjI impI)
  assume a: "getPeer rm (ws_socketId socket) = Some peer \<and>
          peer_roomId peer = Some r \<and> r \<noteq> [] \<and> peer_userId peer = Some u \<and> u \<noteq> []"
  then have u: "relayUserId rm (ws_socketId socket) = Some u"
    using relayUserId_admitted by blast
  have t: "\<And>msg. sendToPeers wss (getRoomPeers rm (ws_socketId socket)) msg =
           map (\<lambda>m. Send m msg)
             (filter (\<lambda>m. m \<noteq> ws_socketId socket \<and> connected wss m) (roomMembers rm r))"
    using a relay_targets by blast
  show o: "handleMessage socket (Frame (OfferMessage x)) secret now wss rm =
              (map (\<lambda>m. Send m (RelayedOfferMessage x u))
                 (filter (\<lambda>m. m \<noteq> ws_socketId socket \<and> connected wss m) (roomMembers rm r)),
               rm)"
    by (simp add: handleMessage_def handleOffer_def u t)
  show an: "handleMessage socket (Frame (AnswerMessage x)) secret now wss rm =
              (map (\<lambda>m. Send m (RelayedAnswerMessage x u))
                 (filter (\<lambda>m. m \<noteq> ws_socketId socket \<and> connected wss m) (roomMembers rm r)),
               rm)"
    by (simp add: handleMessage_def handleAnswer_def u t)
  show i: "handleMessage socket (Frame (IceCandidateMessage x)) secret now wss rm =
              (map (\<lambda>m. Send m (RelayedIceMessage x u))
                 (filter (\<lambda>m. m \<noteq> ws_socketId socket \<and> connected wss m) (roomMembers rm r)),
               rm)"
    by (simp add: handleMessage_def handleIce_def u t)
  assume alone: "set (roomMembers rm r) \<subseteq> {ws_socketId socket}"
  then have e: "filter (\<lambda>m. m \<noteq> ws_socketId socket \<and> connected wss m) (roomMembers rm r) = []"
    by (auto simp: filter_empty_conv)
  show "fst (handleMessage socket (Frame (OfferMessage x)) secret now wss rm) = []"
    by (simp add: o e)
  show "fst (handleMessage socket (Frame (AnswerMessage x)) secret now wss rm) = []"
    by (simp add: an e)
  show "fst (handleMessage socket (Frame (IceCandidateMessage x)) secret now wss rm) = []"
    by (simp add: i e)
next
  assume "\<forall>p. getPeer rm (ws_socketId socket) = Some p \<longrightarrow>
               \<not> truthy (peer_roomId p) \<or> \<not> truthy (peer_userId p)"
  then have n: "relayUserId rm (ws_socketId socket) = None" by (rule relayUserId_unadmitted)
  show "handleMessage socket (Frame (OfferMessage x)) secret now wss rm =
              ([Send (ws_socketId socket) (ErrorMessage ''NOT_IN_ROOM'' ''Must join a room first'')],
               rm)"
    using assms by (simp add: handleMessage_def handleOffer_def n sendError_def send_def)
  show "handleMessage socket (Frame (AnswerMessage x)) secret now wss rm =
              ([Send (ws_socketId socket) (ErrorMessage ''NOT_IN_ROOM'' ''Must join a room first'')],
               rm)"
    using assms by (simp add: handleMessage_def handleAnswer_def n sendError_def send_def)
  show "handleMessage socket (Frame (IceCandidateMessage x)) secret now wss rm =
              ([Send (ws_socketId socket) (ErrorMessage ''NOT_IN_ROOM'' ''Must join a room first'')],
               rm)"
    using assms by (simp add: handleMessage_def handleIce_def n sendError_def send_def)
qed

theorem negotiation_frames_relayed_witness:
  "handleMessage socket_c1 (Frame (OfferMessage ''X'')) ''dev-secret'' 2000 example_wss
     registry_full =
     ([Send ''c2'' (RelayedOfferMessage ''X'' ''alice'')], registry_full) \<and>
   handleMessage socket_c3 (Frame (IceCandidateMessage ''X'')) ''dev-secret'' 2000 example_wss
     registry_full =
     ([Send ''c3'' (ErrorMessage ''NOT_IN_ROOM'' ''Must join a room first'')], registry_full) \<and>
   fst (handleMessage socket_c1 (Frame (AnswerMessage ''X'')) ''dev-secret'' 2000 example_wss
     registry_alice) = []"
proof -
  let ?alice = "\<lparr>peer_socketId = ''c1'', peer_roomId = Some ''R'', peer_userId = Some ''alice'',
            peer_appId = Some ''T''\<rparr>"
  have o1: "ws_open socket_c1" and o3: "ws_open socket_c3"
    by (simp_all add: socket_c1_def socket_c3_def)
  have p1: "getPeer registry_full (ws_socketId socket_c1) = Some ?alice \<and>
      peer_roomId ?alice = Some ''R'' \<and> ''R'' \<noteq> [] \<and> peer_userId ?alice = Some ''alice'' \<and>
      ''alice'' \<noteq> []"
    by (simp add: registry_full_eq getPeer_def socket_c1_def)
  have p3: "\<forall>p. getPeer registry_full (ws_socketId socket_c3) = Some p \<longrightarrow>
               \<not> truthy (peer_roomId p) \<or> \<not> truthy (peer_userId p)"
    by (simp add: registry_full_eq getPeer_def socket_c3_def)
  have pa: "getPeer registry_alice (ws_socketId socket_c1) = Some ?alice \<and>
      peer_roomId ?alice = Some ''R'' \<and> ''R'' \<noteq> [] \<and> peer_userId ?alice = Some ''alice'' \<and>
      ''alice'' \<noteq> []"
    by (simp add: registry_alice_eq getPeer_def socket_c1_def)
  have m: "filter (\<lambda>m. m \<noteq> ws_socketId socket_c1 \<and> connected example_wss m)
             (roomMembers registry_full ''R'') = [''c2'']"
    by (simp add: registry_full_eq roomMembers_def connected_def example_wss_def socket_c1_def)
  have ma: "set (roomMembers registry_alice ''R'') \<subseteq> {ws_socketId socket_c1}"
    by (simp add: registry_alice_eq roomMembers_def socket_c1_def)
  have "handleMessage socket_c1 (Frame (OfferMessage ''X'')) ''dev-secret'' 2000 example_wss
     registry_full =
     (map (\<lambda>m. Send m (RelayedOfferMessage ''X'' ''alice''))
        (filter (\<lambda>m. m \<noteq> ws_socketId socket_c1 \<and> connected example_wss m)
           (roomMembers registry_full ''R'')), registry_full)"
    using negotiation_frames_relayed [OF o1, of registry_full ?alice "''R''" "''alice''" "''X''"
        "''dev-secret''" 2000 example_wss] p1
    by blast
  then have c1: "handleMessage socket_c1 (Frame (OfferMessage ''X'')) ''dev-secret'' 2000
      example_wss registry_full =
     ([Send ''c2'' (RelayedOfferMessage ''X'' ''alice'')], registry_full)"
    by (simp add: m)
  have c2: "handleMessage socket_c3 (Frame (IceCandidateMessage ''X'')) ''dev-secret'' 2000
      example_wss registry_full =
     ([Send (ws_socketId socket_c3) (ErrorMessage ''NOT_IN_ROOM'' ''Must join a room first'')],
      registry_full)"
    using negotiation_frames_relayed [OF o3, of registry_full ?alice "''R''" "''alice''" "''X''"
        "''dev-secret''" 2000 example_wss] p3
    by blast
  have c3: "fst (handleMessage socket_c1 (Frame (AnswerMessage ''X'')) ''dev-secret'' 2000
      example_wss registry_alice) = []"
    using negotiation_frames_relayed [OF o1, of registry_alice ?alice "''R''" "''alice''" "''X''"
        "''dev-secret''" 2000 example_wss] pa ma
    by blast
  show ?thesis using c1 c2 c3 by (simp add: socket_c3_def)
qed

lemma registry_forged_eq:
  "registry_forged =
     \<lparr>rooms = [''R'' \<mapsto> \<lparr>room_id = ''R'', room_appId = ''T'', room_peers = [''c1''],
                              room_maxParticipants = 2\<rparr>],
      peers = [''c1'' \<mapsto> \<lparr>peer_socketId = ''c1'', peer_roomId = Some ''R'',
                               peer_userId = Some [], peer_appId = Some ''T''\<rparr>]\<rparr>"
  by (simp add: registry_forged_def handleJoin_def jwt_verify_def forged_payload_def
      registry_c1_eq joinRoom_def Let_def DEFAULT_MAX_PARTICIPANTS_def set_add_def
      socket_c1_def)

lemma registry_forged_c2_eq:
  "registry_forged_c2 =
     \<lparr>rooms = [''R'' \<mapsto> \<lparr>room_id = ''R'', room_appId = ''T'', room_peers = [''c1''],
                              room_maxParticipants = 2\<rparr>],
      peers = [''c1'' \<mapsto> \<lparr>peer_socketId = ''c1'', peer_roomId = Some ''R'',
                               peer_userId = Some [], peer_appId = Some ''T''\<rparr>,
               ''c2'' \<mapsto> \<lparr>peer_socketId = ''c2'', peer_roomId = None,
                               peer_userId = None, peer_appId = None\<rparr>]\<rparr>"
  by (simp add: registry_forged_c2_def registry_forged_eq registerPeer_def Let_def)

lemma registry_forged_bob_eq:
  "registry_forged_bob =
     \<lparr>rooms = [''R'' \<mapsto> \<lparr>room_id = ''R'', room_appId = ''T'', room_peers = [''c1'', ''c2''],
                              room_maxParticipants = 2\<rparr>],
      peers = [''c1'' \<mapsto> \<lparr>peer_socketId = ''c1'', peer_roomId = Some ''R'',
                               peer_userId = Some [], peer_appId = Some ''T''\<rparr>,
               ''c2'' \<mapsto> \<lparr>peer_socketId = ''c2'', peer_roomId = Some ''R'',
                               peer_userId = Some ''bob'', peer_appId = Some ''T''\<rparr>]\<rparr>"
  by (simp add: registry_forged_bob_def registry_forged_c2_eq joinRoom_def Let_def set_add_def)

lemma registry_unnamed_c2_eq:
  "registry_unnamed_c2 =
     \<lparr>rooms = [[] \<mapsto> \<lparr>room_id = [], room_appId = ''T'', room_peers = [''c1''],
                              room_maxParticipants = 2\<rparr>],
      peers = [''c1'' \<mapsto> \<lparr>peer_socketId = ''c1'', peer_roomId = Some [],
                               peer_userId = Some ''alice'', peer_appId = Some ''T''\<rparr>,
               ''c2'' \<mapsto> \<lparr>peer_socketId = ''c2'', peer_roomId = None,
                               peer_userId = None, peer_appId = None\<rparr>]\<rparr>"
  by (simp add: registry_unnamed_c2_def registry_unnamed_room_eq registerPeer_def Let_def)

lemma registry_unnamed_bob_eq:
  "registry_unnamed_bob =
     \<lparr>rooms = [[] \<mapsto> \<lparr>room_id = [], room_appId = ''T'', room_peers = [''c1'', ''c2''],
                              room_maxParticipants = 2\<rparr>],
      peers = [''c1'' \<mapsto> \<lparr>peer_socketId = ''c1'', peer_roomId = Some [],
                               peer_userId = Some ''alice'', peer_appId = Some ''T''\<rparr>,
               ''c2'' \<mapsto> \<lparr>peer_socketId = ''c2'', peer_roomId = Some [],
                               peer_userId = Some ''bob'', peer_appId = Some ''T''\<rparr>]\<rparr>"
  by (simp add: registry_unnamed_bob_def registry_unnamed_c2_eq joinRoom_def Let_def set_add_def)

text \<open>
  A sender that was admitted with an empty user id, or to the room whose id is the
  empty string, is told \<open>NOT_IN_ROOM\<close> although the room has another connected
  member; and a member whose socket is no longer open gets no frame.
\<close>

theorem admitted_sender_not_relayed:
  "getPeer registry_forged_bob ''c1'' =
     Some \<lparr>peer_socketId = ''c1'', peer_roomId = Some ''R'', peer_userId = Some [],
           peer_appId = Some ''T''\<rparr> \<and>
   roomMembers registry_forged_bob ''R'' = [''c1'', ''c2''] \<and>
   connected example_wss ''c2'' \<and>
   fst (handleMessage socket_c1 (Frame (OfferMessage ''X'')) ''dev-secret'' 2000 example_wss
          registry_forged_bob) =
     [Send ''c1'' (ErrorMessage ''NOT_IN_ROOM'' ''Must join a room first'')] \<and>
   getPeer registry_unnamed_bob ''c1'' =
     Some \<lparr>peer_socketId = ''c1'', peer_roomId = Some [], peer_userId = Some ''alice'',
           peer_appId = Some ''T''\<rparr> \<and>
   roomMembers registry_unnamed_bob [] = [''c1'', ''c2''] \<and>
   fst (handleMessage socket_c1 (Frame (IceCandidateMessage ''X'')) ''dev-secret'' 2000
          example_wss registry_unnamed_bob) =
     [Send ''c1'' (ErrorMessage ''NOT_IN_ROOM'' ''Must join a room first'')] \<and>
   roomMembers registry_full ''R'' = [''c1'', ''c2''] \<and>
   fst (handleMessage socket_c1 (Frame (AnswerMessage ''X'')) ''dev-secret'' 2000 wss_c2_closed
          registry_full) = []"
  by (simp add: registry_forged_bob_eq registry_unnamed_bob_eq registry_full_eq getPeer_def
      roomMembers_def connected_def example_wss_def wss_c2_closed_def handleMessage_def
      handleOffer_def handleAnswer_def handleIce_def relayUserId_def getRoomPeers_def
      sendError_def send_def sendToPeers_def findSocket_def socket_c1_def)

lemma getRoomPeers_after_join:
  assumes ok: "fst (joinRoom sid r u a rm) = JoinSuccess" and r: "r \<noteq> []"
  shows "getRoomPeers (snd (joinRoom sid r u a rm)) sid =
           filter (\<lambda>m. m \<noteq> sid) (roomMembers rm r)"
proof -
  from joinRoom_success [OF ok] obtain peer room where
    room: "room = (case rooms rm r of Some x \<Rightarrow> x | None \<Rightarrow> newRoom r a)" and
    rm': "snd (joinRoom sid r u a rm) =
            \<lparr>rooms = (rooms rm)(r \<mapsto> room\<lparr>room_peers := set_add sid (room_peers room)\<rparr>),
              peers = (peers rm)(sid \<mapsto> peer\<lparr>peer_roomId := Some r, peer_userId := Some u,
                                             peer_appId := Some a\<rparr>)\<rparr>"
    by blast
  have m: "room_peers room = roomMembers rm r"
    by (cases "rooms rm r") (simp_all add: room roomMembers_def newRoom_def)
  have "filter (\<lambda>m. m \<noteq> sid) (set_add sid (room_peers room)) =
        filter (\<lambda>m. m \<noteq> sid) (room_peers room)"
    by (simp add: set_add_def)
  then show ?thesis using r by (simp add: rm' getRoomPeers_def m)
qed

lemma map_filter_all_Some:
  assumes "\<forall>x \<in> set xs. f x = g x \<and> f x \<noteq> None"
  shows "map Some (List.map_filter f xs) = map g xs"
  using assms
proof (induction xs)
  case Nil
  then show ?case by (simp add: List.map_filter_simps)
next
  case (Cons a xs)
  from Cons.prems obtain y where y: "f a = Some y" "g a = Some y" by fastforce
  from Cons.prems have "\<forall>x \<in> set xs. f x = g x \<and> f x \<noteq> None" by fastforce
  then have "map Some (List.map_filter f xs) = map g xs" by (rule Cons.IH)
  then show ?case by (simp add: List.map_filter_simps y)
qed

lemma getRoomUserIds_all:
  assumes "\<forall>m \<in> set (roomMembers rm roomId).
             \<exists>p u. peers rm m = Some p \<and> peer_userId p = Some u \<and> u \<noteq> []"
  shows "map Some (getRoomUserIds rm roomId) = map (getUserId rm) (roomMembers rm roomId)"
proof -
  have "\<forall>m \<in> set (roomMembers rm roomId).
          truthyUserId rm m = getUserId rm m \<and> truthyUserId rm m \<noteq> None"
    using assms by (fastforce simp: truthyUserId_def getUserId_def)
  then have "map Some (List.map_filter (truthyUserId rm) (roomMembers rm roomId)) =
             map (getUserId rm) (roomMembers rm roomId)"
    by (rule map_filter_all_Some)
  moreover have "getRoomUserIds rm roomId =
                 List.map_filter (truthyUserId rm) (roomMembers rm roomId)"
    by (simp add: getRoomUserIds_def roomMembers_def map_filter_simps(2) split: option.splits)
  ultimately show ?thesis by simp
qed

text \<open>
  Claim C4, as the code has it. When the grant verifies, names the room of the message
  (a non-empty id) and \<open>joinRoom\<close> succeeds, the effects of \<open>handleJoin\<close> on an open
  socket are, in this order: the frame \<open>joined\<close> to the new peer, with the room id,
  the user id of the grant and the user ids \<open>getRoomUserIds\<close> gave for the room before
  the admission, which are the non-empty user ids of its members (the user ids of all
  the members, in order, when none is empty); then one frame \<open>peer-joined\<close>, with the
  new user id and \<open>isInitiator = true\<close>, to each member the room had before that has
  an open socket among the server's clients, and to no one else: never to the new peer.
\<close>

theorem join_notifications:
  assumes "ws_open socket"
    and "jwt_verify token secret now = Inr claims"
    and "claims_roomId claims = roomId" and "roomId \<noteq> []"
    and "fst (joinRoom (ws_socketId socket) roomId (claims_userId claims) (claims_appId claims) rm)
           = JoinSuccess"
  shows "handleJoin socket roomId token secret now wss rm =
           (Send (ws_socketId socket)
              (JoinedMessage roomId (claims_userId claims) (getRoomUserIds rm roomId)) #
            map (\<lambda>m. Send m (PeerJoinedMessage (claims_userId claims) True))
              (filter (\<lambda>m. m \<noteq> ws_socketId socket \<and> connected wss m) (roomMembers rm roomId)),
            snd (joinRoom (ws_socketId socket) roomId (claims_userId claims)
                   (claims_appId claims) rm)) \<and>
         ((\<forall>m \<in> set (roomMembers rm roomId).
             \<exists>p u. peers rm m = Some p \<and> peer_userId p = Some u \<and> u \<noteq> []) \<longrightarrow>
            map Some (getRoomUserIds rm roomId) = map (getUserId rm) (roomMembers rm roomId))"
proof (intro conjI impI)
  let ?j = "joinRoom (ws_socketId socket) roomId (claims_userId claims) (claims_appId claims) rm"
  obtain rm1 where j: "?j = (JoinSuccess, rm1)" using assms(5) by (cases ?j) simp
  have g: "getRoomPeers (snd ?j) (ws_socketId socket) =
      filter (\<lambda>m. m \<noteq> ws_socketId socket) (roomMembers rm roomId)"
    using assms(5,4) by (rule getRoomPeers_after_join)
  then have g1: "getRoomPeers rm1 (ws_socketId socket) =
      filter (\<lambda>m. m \<noteq> ws_socketId socket) (roomMembers rm roomId)"
    by (simp add: j)
  have "handleJoin socket roomId token secret now wss rm =
      (send socket (JoinedMessage roomId (claims_userId claims) (getRoomUserIds rm roomId)) @
       sendToPeers wss (getRoomPeers rm1 (ws_socketId socket))
         (PeerJoinedMessage (claims_userId claims) True), rm1)"
    using assms(2,3) by (simp add: handleJoin_def Let_def j)
  then show "handleJoin socket roomId token secret now wss rm =
           (Send (ws_socketId socket)
              (JoinedMessage roomId (claims_userId claims) (getRoomUserIds rm roomId)) #
            map (\<lambda>m. Send m (PeerJoinedMessage (claims_userId claims) True))
              (filter (\<lambda>m. m \<noteq> ws_socketId socket \<and> connected wss m) (roomMembers rm roomId)),
            snd ?j)"
    using assms(1) by (simp add: g1 j sendToPeers_map send_def conj_commute)
next
  assume "\<forall>m \<in> set (roomMembers rm roomId).
             \<exists>p u. peers rm m = Some p \<and> peer_userId p = Some u \<and> u \<noteq> []"
  then show "map Some (getRoomUserIds rm roomId) = map (getUserId rm) (roomMembers rm roomId)"
    by (rule getRoomUserIds_all)
qed

theorem join_notifications_witness:
  "fst (handleJoin socket_c2 ''R'' (SignedToken bob_payload ''dev-secret'') ''dev-secret'' 2000
          example_wss registry_alice_c2) =
     [Send ''c2'' (JoinedMessage ''R'' ''bob'' [''alice'']),
      Send ''c1'' (PeerJoinedMessage ''bob'' True) :: string Effect]"
proof -
  have o: "ws_open socket_c2" by (simp add: socket_c2_def)
  have v: "jwt_verify (SignedToken bob_payload ''dev-secret'') ''dev-secret'' 2000 = Inr bob_payload"
    by (simp add: jwt_verify_def bob_payload_def)
  have r: "claims_roomId bob_payload = ''R''" "''R'' \<noteq> []" by (simp_all add: bob_payload_def)
  have j: "fst (joinRoom (ws_socketId socket_c2) ''R'' (claims_userId bob_payload)
                  (claims_appId bob_payload) registry_alice_c2) = JoinSuccess"
    by (simp add: socket_c2_def bob_payload_def registry_alice_c2_eq joinRoom_def Let_def)
  have u: "getRoomUserIds registry_alice_c2 ''R'' = [''alice'']"
    by (simp add: registry_alice_c2_eq getRoomUserIds_def truthyUserId_def List.map_filter_simps)
  have m: "filter (\<lambda>m. m \<noteq> ws_socketId socket_c2 \<and> connected example_wss m)
             (roomMembers registry_alice_c2 ''R'') = [''c1'']"
    by (simp add: registry_alice_c2_eq roomMembers_def connected_def example_wss_def socket_c2_def)
  have "handleJoin socket_c2 ''R'' (SignedToken bob_payload ''dev-secret'') ''dev-secret''
               2000 example_wss registry_alice_c2 =
        (Send (ws_socketId socket_c2)
           (JoinedMessage ''R'' (claims_userId bob_payload)
              (getRoomUserIds registry_alice_c2 ''R'')) #
         map (\<lambda>m. Send m (PeerJoinedMessage (claims_userId bob_payload) True) :: string Effect)
           (filter (\<lambda>m. m \<noteq> ws_socketId socket_c2 \<and> connected example_wss m)
              (roomMembers registry_alice_c2 ''R'')),
         snd (joinRoom (ws_socketId socket_c2) ''R'' (claims_userId bob_payload)
                (claims_appId bob_payload) registry_alice_c2))"
    by (rule conjunct1 [OF join_notifications [OF o v r j]])
  then have "fst (handleJoin socket_c2 ''R'' (SignedToken bob_payload ''dev-secret'')
                    ''dev-secret'' 2000 example_wss registry_alice_c2) =
        [Send (ws_socketId socket_c2)
           (JoinedMessage ''R'' (claims_userId bob_payload) [''alice'']),
         Send ''c1'' (PeerJoinedMessage (claims_userId bob_payload) True) :: string Effect]"
    by (simp add: u m)
  then show ?thesis by (simp add: socket_c2_def bob_payload_def)
qed

text \<open>
  Three successful joins. A join of the room whose id is the empty string sends
  \<open>joined\<close> and no \<open>peer-joined\<close> to the connected member of the room; a member
  whose user id is empty is missing from the list of \<open>joined\<close>; and a member with no
  open socket among the clients gets no \<open>peer-joined\<close>.
\<close>

theorem joined_without_peer_joined:
  "fst (joinRoom ''c2'' [] ''bob'' ''T'' registry_unnamed_c2) = JoinSuccess \<and>
   roomMembers registry_unnamed_c2 [] = [''c1''] \<and> connected example_wss ''c1'' \<and>
   fst (handleJoin socket_c2 [] (SignedToken unnamed_room_payload ''dev-secret'') ''dev-secret''
          2000 example_wss registry_unnamed_c2) =
     [Send ''c2'' (JoinedMessage [] ''bob'' [''alice'']) :: string Effect] \<and>
   fst (joinRoom ''c2'' ''R'' ''bob'' ''T'' registry_forged_c2) = JoinSuccess \<and>
   roomMembers registry_forged_c2 ''R'' = [''c1''] \<and>
   getUserId registry_forged_c2 ''c1'' = Some [] \<and>
   fst (handleJoin socket_c2 ''R'' (SignedToken bob_payload ''dev-secret'') ''dev-secret''
          2000 example_wss registry_forged_c2) =
     [Send ''c2'' (JoinedMessage ''R'' ''bob'' []),
      Send ''c1'' (PeerJoinedMessage ''bob'' True) :: string Effect] \<and>
   fst (joinRoom ''c2'' ''R'' ''bob'' ''T'' registry_alice_c2) = JoinSuccess \<and>
   roomMembers registry_alice_c2 ''R'' = [''c1''] \<and>
   fst (handleJoin socket_c2 ''R'' (SignedToken bob_payload ''dev-secret'') ''dev-secret''
          2000 [socket_c2] registry_alice_c2) =
     [Send ''c2'' (JoinedMessage ''R'' ''bob'' [''alice'']) :: string Effect]"
  by (simp add: registry_unnamed_c2_eq registry_forged_c2_eq registry_alice_c2_eq
      roomMembers_def connected_def example_wss_def handleJoin_def jwt_verify_def
      unnamed_room_payload_def bob_payload_def joinRoom_def Let_def set_add_def
      getRoomUserIds_def truthyUserId_def getUserId_def List.map_filter_simps
      getRoomPeers_def send_def sendToPeers_def findSocket_def socket_c2_def)

lemma send_isSend: "list_all isSend (send socket msg)"
  by (simp add: send_def)

lemma sendToPeers_isSend: "list_all isSend (sendToPeers wss ids msg)"
  by (simp add: sendToPeers_map list_all_iff)

lemma handleJoin_isSend: "list_all isSend (fst (handleJoin socket roomId token secret now wss rm))"
  by (auto simp: handleJoin_def Let_def sendError_def send_isSend sendToPeers_isSend
      split: sum.splits JwtError.splits prod.splits JoinResult.splits)

lemma relay_isSend:
  "list_all isSend (handleOffer socket x wss rm)"
  "list_all isSend (handleAnswer socket x wss rm)"
  "list_all isSend (handleIce socket x wss rm)"
  by (simp_all add: handleOffer_def handleAnswer_def handleIce_def sendError_def send_isSend
      sendToPeers_isSend split: option.splits)

lemma handleLeave_isSend: "list_all isSend (fst (handleLeave socket wss rm))"
  by (auto simp: handleLeave_def notifyPeerLeft_def sendToPeers_isSend
      split: option.splits prod.splits)

lemma handleMessage_isSend:
  "list_all isSend (fst (handleMessage socket data secret now wss rm))"
proof (cases data)
  case InvalidJson
  then show ?thesis by (simp add: handleMessage_def sendError_def send_isSend)
next
  case InvalidFormat
  then show ?thesis by (simp add: handleMessage_def sendError_def send_isSend)
next
  case (Frame message)
  then show ?thesis
    by (cases message)
      (simp_all add: handleMessage_def handleJoin_isSend relay_isSend handleLeave_isSend)
qed

lemma handleJoin_room_full:
  assumes "ws_open socket" and "jwt_verify token secret now = Inr claims"
    and "claims_roomId claims = roomId"
    and "getPeer rm (ws_socketId socket) = Some peer" and "peer_roomId peer = None"
    and "rooms rm roomId = Some room" and "room_appId room = claims_appId claims"
    and "length (room_peers room) \<ge> room_maxParticipants room"
  shows "handleJoin socket roomId token secret now wss rm =
           ([Send (ws_socketId socket) (ErrorMessage ''ROOM_FULL'' ''Room is full'')], rm)"
proof -
  have "joinRoom (ws_socketId socket) roomId (claims_userId claims) (room_appId room) rm =
      (JoinFailure ''Room is full'' ''ROOM_FULL'', rm)"
    using assms(4-6,8) by (intro joinRoom_full_same_app) (simp_all add: getPeer_def)
  then show ?thesis
    using assms(1-3,7) by (simp add: handleJoin_def Let_def sendError_def send_def)
qed

text \<open>
  Claim C5, as the code has it. No effect of \<open>handleMessage\<close> closes a transport:
  every effect is a frame written to a socket. For \<open>INVALID_MESSAGE\<close>,
  \<open>TOKEN_EXPIRED\<close>, \<open>INVALID_TOKEN\<close> and \<open>ROOM_FULL\<close> the error frame to the sender is
  the only effect and the registry is unchanged; in particular a join to a full room of
  the same tenant answers \<open>ROOM_FULL\<close> and leaves the connection open and registered.
\<close>

theorem error_frames_leave_transport_open:
  assumes "ws_open socket"
  shows "list_all isSend (fst (handleMessage socket data secret now wss rm)) \<and>
         handleMessage socket InvalidJson secret now wss rm =
           ([Send (ws_socketId socket) (ErrorMessage ''INVALID_MESSAGE'' ''Invalid JSON'')], rm) \<and>
         handleMessage socket InvalidFormat secret now wss rm =
           ([Send (ws_socketId socket) (ErrorMessage ''INVALID_MESSAGE'' ''Invalid message format'')],
            rm) \<and>
         (jwt_verify token secret now = Inl TokenExpiredError \<longrightarrow>
            handleMessage socket (Frame (JoinMessage roomId token)) secret now wss rm =
              ([Send (ws_socketId socket) (ErrorMessage ''TOKEN_EXPIRED'' ''Token has expired'')],
               rm)) \<and>
         (jwt_verify token secret now = Inl JsonWebTokenError \<longrightarrow>
            handleMessage socket (Frame (JoinMessage roomId token)) secret now wss rm =
              ([Send (ws_socketId socket) (ErrorMessage ''INVALID_TOKEN'' ''Invalid token'')], rm)) \<and>
         (jwt_verify token secret now = Inr claims \<and> claims_roomId claims = roomId \<and>
          getPeer rm (ws_socketId socket) = Some peer \<and> peer_roomId peer = None \<and>
          rooms rm roomId = Some room \<and> room_appId room = claims_appId claims \<and>
          length (room_peers room) \<ge> room_maxParticipants room \<longrightarrow>
            handleMessage socket (Frame (JoinMessage roomId token)) secret now wss rm =
              ([Send (ws_socketId socket) (ErrorMessage ''ROOM_FULL'' ''Room is full'')], rm))"
proof (intro conjI impI)
  show "list_all isSend (fst (handleMessage socket data secret now wss rm))"
    by (rule handleMessage_isSend)
  show "handleMessage socket InvalidJson secret now wss rm =
           ([Send (ws_socketId socket) (ErrorMessage ''INVALID_MESSAGE'' ''Invalid JSON'')], rm)"
    using assms by (simp add: handleMessage_def sendError_def send_def)
  show "handleMessage socket InvalidFormat secret now wss rm =
           ([Send (ws_socketId socket) (ErrorMessage ''INVALID_MESSAGE'' ''Invalid message format'')],
            rm)"
    using assms by (simp add: handleMessage_def sendError_def send_def)
next
  assume "jwt_verify token secret now = Inl TokenExpiredError"
  then show "handleMessage socket (Frame (JoinMessage roomId token)) secret now wss rm =
              ([Send (ws_socketId socket) (ErrorMessage ''TOKEN_EXPIRED'' ''Token has expired'')],
               rm)"
    using assms by (simp add: handleMessage_def handleJoin_def sendError_def send_def)
next
  assume "jwt_verify token secret now = Inl JsonWebTokenError"
  then show "handleMessage socket (Frame (JoinMessage roomId token)) secret now wss rm =
              ([Send (ws_socketId socket) (ErrorMessage ''INVALID_TOKEN'' ''Invalid token'')], rm)"
    using assms by (simp add: handleMessage_def handleJoin_def sendError_def send_def)
next
  assume a: "jwt_verify token secret now = Inr claims \<and> claims_roomId claims = roomId \<and>
          getPeer rm (ws_socketId socket) = Some peer \<and> peer_roomId peer = None \<and>
          rooms rm roomId = Some room \<and> room_appId room = claims_appId claims \<and>
          length (room_peers room) \<ge> room_maxParticipants room"
  have "handleJoin socket roomId token secret now wss rm =
           ([Send (ws_socketId socket) (ErrorMessage ''ROOM_FULL'' ''Room is full'')], rm)"
    using assms a by (intro handleJoin_room_full) auto
  then show "handleMessage socket (Frame (JoinMessage roomId token)) secret now wss rm =
              ([Send (ws_socketId socket) (ErrorMessage ''ROOM_FULL'' ''Room is full'')], rm)"
    by (simp add: handleMessage_def)
qed

lemma carol_verifies:
  "jwt_verify carol_token ''dev-secret'' 2000 =
     Inr \<lparr>claims_jti = ''j3'', claims_appId = ''T'', claims_roomId = ''R'',
          claims_userId = ''carol'', claims_role = ''participant'',
          payload_iat = 1000, payload_exp = 4600\<rparr>"
  by (simp add: jwt_verify_def carol_token_def)

theorem error_frames_leave_transport_open_witness:
  "list_all isSend
     (fst (handleMessage socket_c3 (Frame (JoinMessage ''R'' carol_token)) ''dev-secret'' 2000
             example_wss registry_full) :: string Effect list) \<and>
   handleMessage socket_c3 InvalidJson ''dev-secret'' 2000 example_wss registry_full =
     ([Send ''c3'' (ErrorMessage ''INVALID_MESSAGE'' ''Invalid JSON'') :: string Effect],
      registry_full) \<and>
   handleMessage socket_c3 (Frame (JoinMessage ''R'' carol_token)) ''dev-secret'' 5000
     example_wss registry_full =
     ([Send ''c3'' (ErrorMessage ''TOKEN_EXPIRED'' ''Token has expired'') :: string Effect],
      registry_full) \<and>
   handleMessage socket_c3 (Frame (JoinMessage ''R'' carol_token)) ''other-secret'' 2000
     example_wss registry_full =
     ([Send ''c3'' (ErrorMessage ''INVALID_TOKEN'' ''Invalid token'') :: string Effect],
      registry_full) \<and>
   handleMessage socket_c3 (Frame (JoinMessage ''R'' carol_token)) ''dev-secret'' 2000
     example_wss registry_full =
     ([Send ''c3'' (ErrorMessage ''ROOM_FULL'' ''Room is full'') :: string Effect],
      registry_full)"
proof -
  let ?carol = "\<lparr>claims_jti = ''j3'', claims_appId = ''T'', claims_roomId = ''R'',
          claims_userId = ''carol'', claims_role = ''participant'',
          payload_iat = 1000, payload_exp = 4600\<rparr>"
  let ?room = "\<lparr>room_id = ''R'', room_appId = ''T'', room_peers = [''c1'', ''c2''],
                room_maxParticipants = 2\<rparr>"
  let ?peer = "\<lparr>peer_socketId = ''c3'', peer_roomId = None, peer_userId = None,
                peer_appId = None\<rparr>"
  have o: "ws_open socket_c3" by (simp add: socket_c3_def)
  have e: "jwt_verify carol_token ''dev-secret'' 5000 = Inl TokenExpiredError"
    by (simp add: jwt_verify_def carol_token_def)
  have b: "jwt_verify carol_token ''other-secret'' 2000 = Inl JsonWebTokenError"
    by (simp add: jwt_verify_def carol_token_def)
  have f: "jwt_verify carol_token ''dev-secret'' 2000 = Inr ?carol \<and> claims_roomId ?carol = ''R'' \<and>
      getPeer registry_full (ws_socketId socket_c3) = Some ?peer \<and> peer_roomId ?peer = None \<and>
      rooms registry_full ''R'' = Some ?room \<and> room_appId ?room = claims_appId ?carol \<and>
      length (room_peers ?room) \<ge> room_maxParticipants ?room"
    by (simp add: carol_verifies registry_full_eq getPeer_def socket_c3_def)
  have 1: "list_all isSend
     (fst (handleMessage socket_c3 (Frame (JoinMessage ''R'' carol_token)) ''dev-secret'' 2000
             example_wss registry_full) :: string Effect list)"
    using error_frames_leave_transport_open [OF o] by blast
  have 2: "handleMessage socket_c3 InvalidJson ''dev-secret'' 2000 example_wss registry_full =
     ([Send (ws_socketId socket_c3) (ErrorMessage ''INVALID_MESSAGE'' ''Invalid JSON'')
        :: string Effect], registry_full)"
    using error_frames_leave_transport_open [OF o] by blast
  have 3: "handleMessage socket_c3 (Frame (JoinMessage ''R'' carol_token)) ''dev-secret'' 5000
     example_wss registry_full =
     ([Send (ws_socketId socket_c3) (ErrorMessage ''TOKEN_EXPIRED'' ''Token has expired'')
        :: string Effect], registry_full)"
    using error_frames_leave_transport_open [OF o, of _ _ _ _ _ carol_token] e by blast
  have 4: "handleMessage socket_c3 (Frame (JoinMessage ''R'' carol_token)) ''other-secret'' 2000
     example_wss registry_full =
     ([Send (ws_socketId socket_c3) (ErrorMessage ''INVALID_TOKEN'' ''Invalid token'')
        :: string Effect], registry_full)"
    using error_frames_leave_transport_open [OF o, of _ _ _ _ _ carol_token] b by blast
  have 5: "handleMessage socket_c3 (Frame (JoinMessage ''R'' carol_token)) ''dev-secret'' 2000
     example_wss registry_full =
     ([Send (ws_socketId socket_c3) (ErrorMessage ''ROOM_FULL'' ''Room is full'')
        :: string Effect], registry_full)"
    using error_frames_leave_transport_open [OF o, of _ "''dev-secret''" 2000 example_wss
        registry_full carol_token "''R''" ?carol ?peer ?room] f
    by blast
  show ?thesis using 1 2 3 4 5 by (simp add: socket_c3_def)
qed

text \<open>
  The third client of a full room gets the frame \<open>ROOM_FULL\<close> and nothing closes its
  transport; its peer record stays in the registry.
\<close>

theorem room_full_error_without_close:
  "fst (handleMessage socket_c3 (Frame (JoinMessage ''R'' carol_token)) ''dev-secret'' 2000
          example_wss registry_full) =
     [Send ''c3'' (ErrorMessage ''ROOM_FULL'' ''Room is full'') :: string Effect] \<and>
   Terminate ''c3'' \<notin>
     set (fst (handleMessage socket_c3 (Frame (JoinMessage ''R'' carol_token)) ''dev-secret'' 2000
                 example_wss registry_full) :: string Effect list) \<and>
   getPeer (snd (handleMessage socket_c3 (Frame (JoinMessage ''R'' carol_token) :: string RawData)
                   ''dev-secret'' 2000 example_wss registry_full)) ''c3'' =
     Some \<lparr>peer_socketId = ''c3'', peer_roomId = None, peer_userId = None, peer_appId = None\<rparr>"
  by (simp add: handleMessage_def handleJoin_def carol_verifies registry_full_eq joinRoom_def
      getRoomUserIds_def Let_def sendError_def send_def socket_c3_def getPeer_def)

text \<open>
  Claim C7, as the code has it. Verification looks at the signature and at \<open>exp\<close>
  only. For every token signed with the secret whose \<open>exp\<close> is in the future,
  whatever its claims, \<open>verifyToken\<close> returns the five claims as they are, and
  \<open>handleJoin\<close> for the room of the token admits a registered connection to a room
  that does not exist yet: it answers \<open>joined\<close> and records the claims in the peer.
\<close>

theorem malformed_claims_accepted:
  assumes "now < payload_exp payload"
  shows "verifyToken config now (SignedToken payload (jwt_secret config)) =
           Inr \<lparr>claims_jti = claims_jti payload, claims_appId = claims_appId payload,
                claims_roomId = claims_roomId payload, claims_userId = claims_userId payload,
                claims_role = claims_role payload\<rparr> \<and>
         (ws_open socket \<and> getPeer rm (ws_socketId socket) = Some peer \<and>
          peer_roomId peer = None \<and> rooms rm (claims_roomId payload) = None \<longrightarrow>
            fst (handleJoin socket (claims_roomId payload) (SignedToken payload secret) secret
                   now wss rm) =
              [Send (ws_socketId socket)
                 (JoinedMessage (claims_roomId payload) (claims_userId payload) []) :: 'j Effect] \<and>
            getPeer (snd (handleJoin socket (claims_roomId payload) (SignedToken payload secret)
                            secret now wss rm :: 'j Effect list \<times> RoomManager))
              (ws_socketId socket) =
              Some (peer\<lparr>peer_roomId := Some (claims_roomId payload),
                         peer_userId := Some (claims_userId payload),
                         peer_appId := Some (claims_appId payload)\<rparr>))"
proof (intro conjI impI)
  show "verifyToken config now (SignedToken payload (jwt_secret config)) =
           Inr \<lparr>claims_jti = claims_jti payload, claims_appId = claims_appId payload,
                claims_roomId = claims_roomId payload, claims_userId = claims_userId payload,
                claims_role = claims_role payload\<rparr>"
    using assms by (simp add: verifyToken_def jwt_verify_def)
next
  assume a: "ws_open socket \<and> getPeer rm (ws_socketId socket) = Some peer \<and>
          peer_roomId peer = None \<and> rooms rm (claims_roomId payload) = None"
  let ?sid = "ws_socketId socket" and ?r = "claims_roomId payload"
  let ?rm1 = "\<lparr>rooms = (rooms rm)(?r \<mapsto>
                  \<lparr>room_id = ?r, room_appId = claims_appId payload, room_peers = [?sid],
                   room_maxParticipants = DEFAULT_MAX_PARTICIPANTS\<rparr>),
               peers = (peers rm)(?sid \<mapsto>
                  peer\<lparr>peer_roomId := Some ?r, peer_userId := Some (claims_userId payload),
                       peer_appId := Some (claims_appId payload)\<rparr>)\<rparr>"
  have v: "jwt_verify (SignedToken payload secret) secret now = Inr payload"
    using assms by (simp add: jwt_verify_def)
  have j: "joinRoom ?sid ?r (claims_userId payload) (claims_appId payload) rm = (JoinSuccess, ?rm1)"
    using a by (simp add: joinRoom_def getPeer_def Let_def DEFAULT_MAX_PARTICIPANTS_def set_add_def)
  have u: "getRoomUserIds rm ?r = []" using a by (simp add: getRoomUserIds_def)
  have g: "getRoomPeers ?rm1 ?sid = []" by (simp add: getRoomPeers_def)
  have h: "handleJoin socket ?r (SignedToken payload secret) secret now wss rm =
      ([Send ?sid (JoinedMessage ?r (claims_userId payload) []) :: 'j Effect], ?rm1)"
    using a by (simp add: handleJoin_def v j u g Let_def send_def sendToPeers_def)
  show "fst (handleJoin socket ?r (SignedToken payload secret) secret now wss rm) =
      [Send ?sid (JoinedMessage ?r (claims_userId payload) []) :: 'j Effect]"
    by (simp add: h)
  show "getPeer (snd (handleJoin socket ?r (SignedToken payload secret) secret now wss rm
                       :: 'j Effect list \<times> RoomManager)) ?sid =
      Some (peer\<lparr>peer_roomId := Some ?r, peer_userId := Some (claims_userId payload),
                 peer_appId := Some (claims_appId payload)\<rparr>)"
    by (simp add: h getPeer_def)
qed

theorem malformed_claims_accepted_witness:
  "verifyToken example_config 2000 (SignedToken unknown_role_payload ''dev-secret'') =
     Inr \<lparr>claims_jti = ''j4'', claims_appId = ''T'', claims_roomId = ''R'',
          claims_userId = ''mallory'', claims_role = ''moderator''\<rparr> \<and>
   fst (handleJoin socket_c1 ''R'' (SignedToken unknown_role_payload ''dev-secret'')
          ''dev-secret'' 2000 example_wss registry_c1) =
     [Send ''c1'' (JoinedMessage ''R'' ''mallory'' []) :: string Effect] \<and>
   getPeer (snd (handleJoin socket_c1 ''R'' (SignedToken unknown_role_payload ''dev-secret'')
                   ''dev-secret'' 2000 example_wss registry_c1
                 :: string Effect list \<times> RoomManager)) ''c1'' =
     Some \<lparr>peer_socketId = ''c1'', peer_roomId = Some ''R'', peer_userId = Some ''mallory'',
           peer_appId = Some ''T''\<rparr>"
proof -
  let ?peer = "\<lparr>peer_socketId = ''c1'', peer_roomId = None, peer_userId = None,
                peer_appId = None\<rparr>"
  have t: "2000 < payload_exp unknown_role_payload" by (simp add: unknown_role_payload_def)
  have s: "jwt_secret example_config = ''dev-secret''" by (simp add: example_config_def)
  have r: "claims_roomId unknown_role_payload = ''R''" by (simp add: unknown_role_payload_def)
  have h: "ws_open socket_c1 \<and> getPeer registry_c1 (ws_socketId socket_c1) = Some ?peer \<and>
      peer_roomId ?peer = None \<and> rooms registry_c1 (claims_roomId unknown_role_payload) = None"
    by (simp add: socket_c1_def registry_c1_eq getPeer_def)
  have 1: "verifyToken example_config 2000 (SignedToken unknown_role_payload ''dev-secret'') =
      Inr \<lparr>claims_jti = claims_jti unknown_role_payload,
           claims_appId = claims_appId unknown_role_payload,
           claims_roomId = claims_roomId unknown_role_payload,
           claims_userId = claims_userId unknown_role_payload,
           claims_role = claims_role unknown_role_payload\<rparr>"
    using malformed_claims_accepted [where 'j = string, OF t, of example_config socket_c1
      registry_c1 ?peer
      "''dev-secret''" example_wss]
    by (simp add: s)
  have 2: "fst (handleJoin socket_c1 ''R'' (SignedToken unknown_role_payload ''dev-secret'')
          ''dev-secret'' 2000 example_wss registry_c1) =
     [Send (ws_socketId socket_c1)
        (JoinedMessage ''R'' (claims_userId unknown_role_payload) []) :: string Effect]"
    using malformed_claims_accepted [where 'j = string, OF t, of example_config socket_c1
      registry_c1 ?peer
      "''dev-secret''" example_wss] h
    by (simp add: r)
  have 3: "getPeer (snd (handleJoin socket_c1 ''R'' (SignedToken unknown_role_payload ''dev-secret'')
                   ''dev-secret'' 2000 example_wss registry_c1
                 :: string Effect list \<times> RoomManager)) (ws_socketId socket_c1) =
     Some (?peer\<lparr>peer_roomId := Some ''R'',
                  peer_userId := Some (claims_userId unknown_role_payload),
                  peer_appId := Some (claims_appId unknown_role_payload)\<rparr>)"
    using malformed_claims_accepted [where 'j = string, OF t, of example_config socket_c1
      registry_c1 ?peer
      "''dev-secret''" example_wss] h
    by (simp add: r)
  show ?thesis using 1 2 3 by (simp add: unknown_role_payload_def socket_c1_def)
qed

text \<open>
  A signed, unexpired token with an empty user id and the role \<open>admin\<close> is returned
  as valid by \<open>verifyToken\<close> and admitted by \<open>handleJoin\<close>.
\<close>

theorem forged_claims_pass_verification:
  "claims_userId forged_payload = [] \<and> claims_role forged_payload \<notin> set VALID_ROLES \<and>
   verifyToken example_config 2000 (SignedToken forged_payload ''dev-secret'') =
     Inr \<lparr>claims_jti = ''j1'', claims_appId = ''T'', claims_roomId = ''R'',
          claims_userId = [], claims_role = ''admin''\<rparr> \<and>
   fst (handleJoin socket_c1 ''R'' (SignedToken forged_payload ''dev-secret'')
          ''dev-secret'' 2000 example_wss registry_c1) =
     [Send ''c1'' (JoinedMessage ''R'' [] []) :: string Effect] \<and>
   getPeer (snd (handleJoin socket_c1 ''R'' (SignedToken forged_payload ''dev-secret'')
                   ''dev-secret'' 2000 example_wss registry_c1
                 :: string Effect list \<times> RoomManager)) ''c1'' =
     Some \<lparr>peer_socketId = ''c1'', peer_roomId = Some ''R'', peer_userId = Some [],
           peer_appId = Some ''T''\<rparr>"
  by (simp add: forged_payload_def VALID_ROLES_def verifyToken_def jwt_verify_def
      example_config_def handleJoin_def registry_c1_eq joinRoom_def getRoomUserIds_def
      getRoomPeers_def Let_def DEFAULT_MAX_PARTICIPANTS_def set_add_def send_def sendToPeers_def
      socket_c1_def getPeer_def)

end
